theory Spec2Isabelle
  imports Main "HOL-Library.Sublist"
begin

section \<open>The example gRPC client (examples/grpc\_client.py)\<close>

subsection \<open>Python values and errors\<close>

text \<open>
  The Python values the programs test or call methods on: \<open>None\<close>, booleans, strings
  and the Matplotlib axes of a subplot grid (numbered by position).
  \<open>is_not_None\<close> is the test \<open>v is not None\<close>, \<open>truthy\<close> is the value of \<open>v\<close>
  in a condition.
\<close>

datatype pyval = PyNone | PyBool bool | PyStr string | PyAxes nat

fun is_not_None :: "pyval \<Rightarrow> bool" where
  "is_not_None PyNone = False"
| "is_not_None (PyBool b) = True"
| "is_not_None (PyStr s) = True"
| "is_not_None (PyAxes i) = True"

fun truthy :: "pyval \<Rightarrow> bool" where
  "truthy PyNone = False"
| "truthy (PyBool b) = b"
| "truthy (PyStr s) = (s \<noteq> [])"
| "truthy (PyAxes i) = True"

text \<open>
  The exceptions that occur: a name a module does not define (\<open>ImportError\<close>), a keyword
  argument a function does not take (\<open>TypeError\<close>), an attribute an object does not have
  (\<open>AttributeError\<close>, with the type's name and the attribute), a column a table does not
  have (\<open>KeyError\<close>), the first element of an empty list (\<open>IndexError\<close>) and a path
  that cannot be made a directory (\<open>FileExistsError\<close>).
\<close>

datatype py_error =
    ImportError string
  | TypeError string
  | AttributeError string string
  | KeyError string
  | IndexError
  | FileExistsError string

text \<open>A failed call of the stub raises \<open>grpc.RpcError\<close>, which has a code and details.\<close>

record rpc_error =
  code :: string
  details :: string

subsection \<open>Messages\<close>

text \<open>
  Modelled from the spec: the message types of log\_processor.proto, whose generated
  module log\_processor\_pb2 is not among the sources. The fields are those of the spec's
  request and event shapes; an optional field is an \<open>option\<close>, \<open>None\<close> when it is unset.
  Filter bounds are kept as the numerals the caller wrote (milliseconds or sectors as
  integers), since nothing here computes with them.
\<close>

record FilterOptions =
  start_time :: "int option"
  end_time :: "int option"
  start_sector :: "int option"
  end_sector :: "int option"
  min_dtoc :: "int option"
  max_dtoc :: "int option"

record ProcessLogsRequest =
  source_bucket :: string
  source_path :: string
  target_bucket :: string
  target_path :: string
  log_type :: string
  chunk_size :: int
  filter_options :: "FilterOptions option"

record ConvertToCsvRequest =
  csv_source_bucket :: string
  source_parquet_path :: string
  csv_target_bucket :: string
  target_csv_path :: string
  csv_prefix :: "string option"
  csv_filter_options :: "FilterOptions option"

record ListFilesRequest =
  bucket :: string
  prefix_field :: string

text \<open>
  A progress event. \<open>files\<close> is \<open>output_files\<close> of ProcessLogsProgress and \<open>csv_files\<close>
  of ConvertToCsvProgress; the two event types have the same shape otherwise.
\<close>

record Progress =
  job_id :: string
  stage :: int
  progress_percent :: int
  message :: string
  records_processed :: int
  files :: "string list"
  success :: "bool option"
  error :: "string option"

record JobStatusResponse =
  st_stage :: int
  st_progress_percent :: int
  st_message :: string
  st_records_processed :: int
  st_is_completed :: bool
  st_success :: "bool option"
  st_error :: "string option"

text \<open>
  Reading a field of a generated message: \<open>HasField\<close> tells whether an optional field is
  set, and the attribute itself is the value when set and the type's default (\<open>False\<close>,
  the empty string) when not. It is never \<open>None\<close>.
\<close>

definition HasField :: "'a option \<Rightarrow> bool" where
  "HasField f = (case f of None \<Rightarrow> False | Some v \<Rightarrow> True)"

definition get_bool :: "bool option \<Rightarrow> pyval" where
  "get_bool f = PyBool (case f of None \<Rightarrow> False | Some b \<Rightarrow> b)"

definition get_str :: "string option \<Rightarrow> string" where
  "get_str f = (case f of None \<Rightarrow> [] | Some s \<Rightarrow> s)"

subsection \<open>What the client prints\<close>

text \<open>
  Each \<open>print\<close> of the client is one constructor, holding the values the line shows; the
  layout of a line (padding, thousands separators, emoji) is not modelled.
\<close>

datatype out =
    ProcessingHeader string string string string string int
  | ConvertingHeader string string string string
  | CsvPrefixLine string
  | BlankLine
  | JobIdLine string
  | Separator
  | ProgressLine string int string
  | RecordsLine int
  | GeneratedFilesHeader
  | GeneratedCsvFilesHeader
  | GeneratedFileLine string
  | ProcessingCompletedSuccessfully
  | ProcessingCompleted
  | ProcessingFailed string
  | CsvCompletedSuccessfully
  | CsvCompleted
  | CsvFailed string
  | RpcErrorLine string string
  | ListHeader string string
  | NoFilesFound
  | ListedFile string
  | TotalLine nat
  | StatusHeader string
  | StatusStage string
  | StatusProgress int
  | StatusMessage string
  | StatusRecords int
  | StatusCompleted bool
  | ResultSuccess
  | ResultFailed string

subsection \<open>Stage names\<close>

text \<open>
  The two \<open>stage_names\<close> dictionaries, in the order the source writes them, and
  \<open>stage_names.get(response.stage, "UNKNOWN")\<close>.
\<close>

definition process_stage_names :: "(int \<times> string) list" where
  "process_stage_names =
     [(0, ''UNKNOWN''), (1, ''DOWNLOADING''), (2, ''PARSING''), (3, ''CONVERTING''),
      (4, ''UPLOADING''), (5, ''COMPLETED''), (6, ''FAILED'')]"

definition csv_stage_names :: "(int \<times> string) list" where
  "csv_stage_names =
     [(0, ''UNKNOWN''), (1, ''DOWNLOADING''), (2, ''CONVERTING''), (3, ''UPLOADING''),
      (4, ''COMPLETED''), (5, ''FAILED'')]"

definition dict_get :: "('k \<times> 'v) list \<Rightarrow> 'k \<Rightarrow> 'v \<Rightarrow> 'v" where
  "dict_get d k dflt = (case map_of d k of None \<Rightarrow> dflt | Some v \<Rightarrow> v)"

definition process_stage_name :: "int \<Rightarrow> string" where
  "process_stage_name c = dict_get process_stage_names c ''UNKNOWN''"

definition csv_stage_name :: "int \<Rightarrow> string" where
  "csv_stage_name c = dict_get csv_stage_names c ''UNKNOWN''"

text \<open>
  Modelled from the spec: the stage enumerations of section 4.1, which the server and
  the proto file define and the sources do not hold. Each stage has the number the spec
  writes after it.
\<close>

datatype process_stage =
  P_UNKNOWN | P_DOWNLOADING | P_PARSING | P_CONVERTING | P_UPLOADING | P_COMPLETED | P_FAILED

datatype csv_stage =
  C_UNKNOWN | C_DOWNLOADING | C_CONVERTING | C_UPLOADING | C_COMPLETED | C_FAILED

fun process_stage_code :: "process_stage \<Rightarrow> int" where
  "process_stage_code P_UNKNOWN = 0"
| "process_stage_code P_DOWNLOADING = 1"
| "process_stage_code P_PARSING = 2"
| "process_stage_code P_CONVERTING = 3"
| "process_stage_code P_UPLOADING = 4"
| "process_stage_code P_COMPLETED = 5"
| "process_stage_code P_FAILED = 6"

fun csv_stage_code :: "csv_stage \<Rightarrow> int" where
  "csv_stage_code C_UNKNOWN = 0"
| "csv_stage_code C_DOWNLOADING = 1"
| "csv_stage_code C_CONVERTING = 2"
| "csv_stage_code C_UPLOADING = 3"
| "csv_stage_code C_COMPLETED = 4"
| "csv_stage_code C_FAILED = 5"

fun process_stage_label :: "process_stage \<Rightarrow> string" where
  "process_stage_label P_UNKNOWN = ''UNKNOWN''"
| "process_stage_label P_DOWNLOADING = ''DOWNLOADING''"
| "process_stage_label P_PARSING = ''PARSING''"
| "process_stage_label P_CONVERTING = ''CONVERTING''"
| "process_stage_label P_UPLOADING = ''UPLOADING''"
| "process_stage_label P_COMPLETED = ''COMPLETED''"
| "process_stage_label P_FAILED = ''FAILED''"

fun csv_stage_label :: "csv_stage \<Rightarrow> string" where
  "csv_stage_label C_UNKNOWN = ''UNKNOWN''"
| "csv_stage_label C_DOWNLOADING = ''DOWNLOADING''"
| "csv_stage_label C_CONVERTING = ''CONVERTING''"
| "csv_stage_label C_UPLOADING = ''UPLOADING''"
| "csv_stage_label C_COMPLETED = ''COMPLETED''"
| "csv_stage_label C_FAILED = ''FAILED''"

subsection \<open>Requests\<close>

text \<open>
  A parameter with a default value is an \<open>option\<close>: \<open>None\<close> when the caller leaves it
  out. \<open>csv_prefix\<close> defaults to Python's \<open>None\<close>, so there \<open>None\<close> is also the value.
\<close>

definition default_arg :: "'a \<Rightarrow> 'a option \<Rightarrow> 'a" where
  "default_arg d a = (case a of None \<Rightarrow> d | Some v \<Rightarrow> v)"

definition py_of_str_option :: "string option \<Rightarrow> pyval" where
  "py_of_str_option a = (case a of None \<Rightarrow> PyNone | Some s \<Rightarrow> PyStr s)"

text \<open>
  \<open>process_logs\<close> builds its request from six fields and names no other; the
  \<open>filter_options\<close> field of the message stays unset.
\<close>

definition process_logs_request ::
  "string \<Rightarrow> string \<Rightarrow> string \<Rightarrow> string \<Rightarrow> string \<Rightarrow> int \<Rightarrow> ProcessLogsRequest" where
  "process_logs_request sb sp tb tp lt cs =
     \<lparr>source_bucket = sb, source_path = sp, target_bucket = tb, target_path = tp,
      log_type = lt, chunk_size = cs, filter_options = None\<rparr>"

text \<open>
  \<open>convert_to_csv\<close> builds its request from four fields, then sets \<open>csv_prefix\<close> under
  \<open>if csv_prefix:\<close>.
\<close>

definition convert_to_csv_request ::
  "string \<Rightarrow> string \<Rightarrow> string \<Rightarrow> string \<Rightarrow> string option \<Rightarrow> ConvertToCsvRequest" where
  "convert_to_csv_request sb sp tb tp pfx =
     (let request = \<lparr>csv_source_bucket = sb, source_parquet_path = sp,
                     csv_target_bucket = tb, target_csv_path = tp,
                     csv_prefix = None, csv_filter_options = None\<rparr>
      in if truthy (py_of_str_option pfx) then request\<lparr>csv_prefix := pfx\<rparr> else request)"

subsection \<open>The response stream and the two monitoring loops\<close>

text \<open>
  What iterating the stub's response yields: an event, or \<open>grpc.RpcError\<close> raised by the
  call or by a later step of the iteration (nothing after it is reached). The list ends
  where the server closes the stream.
\<close>

datatype stream_item = Event Progress | Raise rpc_error

text \<open>
  The body of \<open>for response in responses\<close> in \<open>process_logs\<close>, up to the test of the
  stage: the job id once, the progress line, the record count when positive, the
  output files when there are any.
\<close>

definition process_event_lines :: "string option \<Rightarrow> Progress \<Rightarrow> out list" where
  "process_event_lines jid r =
     (if jid = None then [JobIdLine (job_id r), Separator] else [])
     @ [ProgressLine (process_stage_name (stage r)) (progress_percent r) (message r)]
     @ (if records_processed r > 0 then [RecordsLine (records_processed r)] else [])
     @ (if files r \<noteq> [] then GeneratedFilesHeader # map GeneratedFileLine (files r) else [])"

definition csv_event_lines :: "string option \<Rightarrow> Progress \<Rightarrow> out list" where
  "csv_event_lines jid r =
     (if jid = None then [JobIdLine (job_id r), Separator] else [])
     @ [ProgressLine (csv_stage_name (stage r)) (progress_percent r) (message r)]
     @ (if records_processed r > 0 then [RecordsLine (records_processed r)] else [])
     @ (if files r \<noteq> [] then GeneratedCsvFilesHeader # map GeneratedFileLine (files r) else [])"

text \<open>
  The loops. Each returns the events whose loop body ran, in order, and the lines
  printed. \<open>break\<close> at stage 5 or 6 (4 or 5 for CSV) ends the loop; the handler of
  \<open>grpc.RpcError\<close> prints the error and the function returns.
\<close>

fun process_logs_loop :: "string option \<Rightarrow> stream_item list \<Rightarrow> Progress list \<times> out list" where
  "process_logs_loop jid [] = ([], [])"
| "process_logs_loop jid (Raise e # rest) = ([], [RpcErrorLine (code e) (details e)])"
| "process_logs_loop jid (Event r # rest) =
     (if stage r = 5 then
        ([r], process_event_lines jid r
              @ [if HasField (success r) \<and> truthy (get_bool (success r))
                 then ProcessingCompletedSuccessfully else ProcessingCompleted])
      else if stage r = 6 then
        ([r], process_event_lines jid r
              @ [ProcessingFailed
                   (if HasField (error r) then get_str (error r) else ''Unknown error'')])
      else
        (case process_logs_loop (if jid = None then Some (job_id r) else jid) rest of
           (evs, outs) \<Rightarrow> (r # evs, process_event_lines jid r @ outs)))"

fun convert_to_csv_loop :: "string option \<Rightarrow> stream_item list \<Rightarrow> Progress list \<times> out list" where
  "convert_to_csv_loop jid [] = ([], [])"
| "convert_to_csv_loop jid (Raise e # rest) = ([], [RpcErrorLine (code e) (details e)])"
| "convert_to_csv_loop jid (Event r # rest) =
     (if stage r = 4 then
        ([r], csv_event_lines jid r
              @ [if HasField (success r) \<and> truthy (get_bool (success r))
                 then CsvCompletedSuccessfully else CsvCompleted])
      else if stage r = 5 then
        ([r], csv_event_lines jid r
              @ [CsvFailed
                   (if HasField (error r) then get_str (error r) else ''Unknown error'')])
      else
        (case convert_to_csv_loop (if jid = None then Some (job_id r) else jid) rest of
           (evs, outs) \<Rightarrow> (r # evs, csv_event_lines jid r @ outs)))"

subsection \<open>The four client operations\<close>

definition process_logs ::
  "(ProcessLogsRequest \<Rightarrow> stream_item list) \<Rightarrow> string \<Rightarrow> string \<Rightarrow> string \<Rightarrow> string
     \<Rightarrow> string option \<Rightarrow> int option \<Rightarrow> out list" where
  "process_logs stub sb sp tb tp lt_arg cs_arg =
     (let lt = default_arg ''auto'' lt_arg;
          cs = default_arg 100000 cs_arg;
          request = process_logs_request sb sp tb tp lt cs
      in [ProcessingHeader sb sp tb tp lt cs, BlankLine]
         @ snd (process_logs_loop None (stub request)))"

definition convert_to_csv ::
  "(ConvertToCsvRequest \<Rightarrow> stream_item list) \<Rightarrow> string \<Rightarrow> string \<Rightarrow> string \<Rightarrow> string
     \<Rightarrow> string option \<Rightarrow> out list" where
  "convert_to_csv stub sb sp tb tp pfx =
     (let request = convert_to_csv_request sb sp tb tp pfx
      in [ConvertingHeader sb sp tb tp]
         @ (if truthy (py_of_str_option pfx) then [CsvPrefixLine (default_arg [] pfx)] else [])
         @ [BlankLine]
         @ snd (convert_to_csv_loop None (stub request)))"

text \<open>
  \<open>get_job_status\<close> names the stage with the log-processing dictionary and decides on
  the result line with \<open>response.success is not None\<close>.
\<close>

definition get_job_status ::
  "(string \<Rightarrow> rpc_error + JobStatusResponse) \<Rightarrow> string \<Rightarrow> out list" where
  "get_job_status stub jid =
     (case stub jid of
        Inl e \<Rightarrow> [RpcErrorLine (code e) (details e)]
      | Inr r \<Rightarrow>
          [StatusHeader jid,
           StatusStage (process_stage_name (st_stage r)),
           StatusProgress (st_progress_percent r),
           StatusMessage (st_message r),
           StatusRecords (st_records_processed r),
           StatusCompleted (st_is_completed r)]
          @ (if is_not_None (get_bool (st_success r)) then
               (if truthy (get_bool (st_success r)) then [ResultSuccess]
                else [ResultFailed (get_str (st_error r))])
             else []))"

definition list_files_request :: "string \<Rightarrow> string option \<Rightarrow> ListFilesRequest" where
  "list_files_request b prefix_arg = \<lparr>bucket = b, prefix_field = default_arg [] prefix_arg\<rparr>"

definition list_files ::
  "(ListFilesRequest \<Rightarrow> rpc_error + string list) \<Rightarrow> string \<Rightarrow> string option \<Rightarrow> out list" where
  "list_files stub b prefix_arg =
     (case stub (list_files_request b prefix_arg) of
        Inl e \<Rightarrow> [RpcErrorLine (code e) (details e)]
      | Inr fs \<Rightarrow>
          [ListHeader b (default_arg [] prefix_arg), Separator]
          @ (if fs = [] then [NoFilesFound] else map ListedFile fs)
          @ [TotalLine (length fs)])"

subsection \<open>The filter-test driver (examples/grpc\_filter\_test.py)\<close>

text \<open>
  The names grpc\_client.py binds at module level (its imports and its five functions),
  and the parameters of the two functions the driver calls.
\<close>

definition grpc_client_names :: "string list" where
  "grpc_client_names =
     [''grpc'', ''sys'', ''Iterator'', ''log_processor_pb2'', ''log_processor_pb2_grpc'',
      ''process_logs'', ''get_job_status'', ''list_files'', ''convert_to_csv'', ''main'']"

definition process_logs_params :: "string list" where
  "process_logs_params =
     [''stub'', ''source_bucket'', ''source_path'', ''target_bucket'', ''target_path'',
      ''log_type'', ''chunk_size'']"

definition convert_to_csv_params :: "string list" where
  "convert_to_csv_params =
     [''stub'', ''source_bucket'', ''source_parquet_path'', ''target_bucket'',
      ''target_csv_path'', ''csv_prefix'']"

text \<open>
  \<open>from m import a, b, c\<close> fails at the first name the module does not bind; a call fails
  at the first keyword that is not a parameter of the function.
\<close>

definition import_from :: "string list \<Rightarrow> string list \<Rightarrow> py_error + unit" where
  "import_from module_names wanted =
     (case filter (\<lambda>n. n \<notin> set module_names) wanted of
        [] \<Rightarrow> Inr ()
      | n # ns \<Rightarrow> Inl (ImportError n))"

definition check_keywords :: "string list \<Rightarrow> string list \<Rightarrow> py_error + unit" where
  "check_keywords params keywords =
     (case filter (\<lambda>k. k \<notin> set params) keywords of
        [] \<Rightarrow> Inr ()
      | k # ks \<Rightarrow> Inl (TypeError k))"

text \<open>Line 12 of the driver, and the keywords of its calls in examples 1 and 5.\<close>

definition filter_test_import :: "py_error + unit" where
  "filter_test_import =
     import_from grpc_client_names [''create_filter_options'', ''process_logs'', ''convert_to_csv'']"

definition example_time_filter_keywords :: "string list" where
  "example_time_filter_keywords =
     [''source_bucket'', ''source_path'', ''target_bucket'', ''target_path'', ''log_type'',
      ''filter_options'']"

definition example_csv_with_filter_keywords :: "string list" where
  "example_csv_with_filter_keywords =
     [''source_bucket'', ''source_parquet_path'', ''target_bucket'', ''target_csv_path'',
      ''csv_prefix'', ''filter_options'']"

subsection \<open>Sample inputs\<close>

text \<open>
  An event of job \<open>job-1\<close> in a given stage with a given error field, and the status of
  a job that is still parsing: no result yet, so \<open>success\<close> and \<open>error\<close> are unset.
\<close>

definition sample_event :: "int \<Rightarrow> string option \<Rightarrow> Progress" where
  "sample_event s e =
     \<lparr>job_id = ''job-1'', stage = s, progress_percent = 10 * s, message = ''working'',
      records_processed = 0, files = [], success = None, error = e\<rparr>"

definition running_job_status :: JobStatusResponse where
  "running_job_status =
     \<lparr>st_stage = 2, st_progress_percent = 40, st_message = ''Parsing'',
      st_records_processed = 1000, st_is_completed = False,
      st_success = None, st_error = None\<rparr>"

section \<open>The chart script (src/python/visualize\_parquet.py)\<close>

subsection \<open>Tables, the file system and effects\<close>

text \<open>
  A DataFrame is kept as its column names and its number of rows: what a chart shows is
  Matplotlib's work and is not modelled, only which columns a chart needs. A Dask frame
  has a number of partitions and the result of \<open>compute()\<close>, a DataFrame or the message
  of the exception it raises.
\<close>

record dataframe =
  columns :: "string list"
  nrows :: nat

datatype dask_frame = DaskFrame nat "string + dataframe"

text \<open>The lines the script prints, one constructor for each \<open>print\<close>.\<close>

datatype vline =
    FileDoesNotExist string
  | LoadingFile string
  | LoadedPartitions nat
  | ConvertedToPandas
  | DataShape nat nat
  | ReadFailed string
  | ChartSaved string
  | ColumnNotFound string string
  | IssueSendCompleted string string
  | UfsCompleted
  | BlockCompleted
  | SamplingRows int string
  | FileNotFoundWarning string string
  | AllChartsSaved string

text \<open>
  The world the script acts on: the regular files and the directories that exist, the
  chart helpers entered so far (function name and chart title), the charts drawn on axes
  (axes number and title) and the lines printed.
\<close>

record world =
  fs_files :: "string list"
  fs_dirs :: "string list"
  entered :: "(string \<times> string) list"
  drawn :: "(nat \<times> string) list"
  printed :: "vline list"

text \<open>
  A call returns a value, raises an exception or leaves the process with \<open>sys.exit\<close>;
  in each case the world is as the call left it.
\<close>

datatype 'a res = Ok 'a | Exc py_error | SysExit int

type_synonym 'a action = "world \<Rightarrow> 'a res \<times> world"

definition and_then :: "'a action \<Rightarrow> ('a \<Rightarrow> 'b action) \<Rightarrow> 'b action" where
  "and_then m f w =
     (case m w of
        (Ok a, w') \<Rightarrow> f a w'
      | (Exc e, w') \<Rightarrow> (Exc e, w')
      | (SysExit n, w') \<Rightarrow> (SysExit n, w'))"

text \<open>Statements one after the other: the first that does not return ends the run.\<close>

fun run_all :: "unit action list \<Rightarrow> unit action" where
  "run_all [] w = (Ok (), w)"
| "run_all (a # as) w =
     (case a w of
        (Ok u, w') \<Rightarrow> run_all as w'
      | (Exc e, w') \<Rightarrow> (Exc e, w')
      | (SysExit n, w') \<Rightarrow> (SysExit n, w'))"

definition say :: "vline \<Rightarrow> unit action" where
  "say l w = (Ok (), w\<lparr>printed := printed w @ [l]\<rparr>)"

definition lift :: "py_error + unit \<Rightarrow> unit action" where
  "lift r w = (case r of Inl e \<Rightarrow> (Exc e, w) | Inr u \<Rightarrow> (Ok (), w))"

definition enter :: "string \<Rightarrow> string \<Rightarrow> unit action" where
  "enter f title w = (Ok (), w\<lparr>entered := entered w @ [(f, title)]\<rparr>)"

definition skip :: "unit action" where
  "skip w = (Ok (), w)"

text \<open>
  \<open>os.path.exists\<close>, \<open>os.makedirs(p, exist_ok=True)\<close> (which fails where \<open>p\<close> is a regular
  file; parent directories and permissions are not modelled), \<open>plt.savefig\<close> and
  \<open>os.path.join\<close> of two parts.
\<close>

definition path_exists :: "world \<Rightarrow> string \<Rightarrow> bool" where
  "path_exists w p = (p \<in> set (fs_files w) \<or> p \<in> set (fs_dirs w))"

definition makedirs :: "string \<Rightarrow> unit action" where
  "makedirs p w =
     (if p \<in> set (fs_files w) then (Exc (FileExistsError p), w)
      else (Ok (), w\<lparr>fs_dirs := List.insert p (fs_dirs w)\<rparr>))"

definition savefig :: "string \<Rightarrow> unit action" where
  "savefig p w = (Ok (), w\<lparr>fs_files := List.insert p (fs_files w)\<rparr>)"

definition path_join :: "string \<Rightarrow> string \<Rightarrow> string" where
  "path_join a b =
     (if prefix ''/'' b then b
      else if a = [] \<or> suffix ''/'' a then a @ b
      else a @ ''/'' @ b)"

subsection \<open>Attributes and columns\<close>

text \<open>
  The methods of \<open>str\<close>, and the methods of a Matplotlib axes object that the script or
  Seaborn calls. Getting any other attribute raises \<open>AttributeError\<close>; Python gets the
  method before it evaluates the arguments of the call.
\<close>

definition str_methods :: "string list" where
  "str_methods =
     [''capitalize'', ''casefold'', ''center'', ''count'', ''encode'', ''endswith'',
      ''expandtabs'', ''find'', ''format'', ''format_map'', ''index'', ''isalnum'',
      ''isalpha'', ''isascii'', ''isdecimal'', ''isdigit'', ''isidentifier'', ''islower'',
      ''isnumeric'', ''isprintable'', ''isspace'', ''istitle'', ''isupper'', ''join'',
      ''ljust'', ''lower'', ''lstrip'', ''maketrans'', ''partition'', ''removeprefix'',
      ''removesuffix'', ''replace'', ''rfind'', ''rindex'', ''rjust'', ''rpartition'',
      ''rsplit'', ''rstrip'', ''split'', ''splitlines'', ''startswith'', ''strip'',
      ''swapcase'', ''title'', ''translate'', ''upper'', ''zfill'']"

definition axes_methods :: "string list" where
  "axes_methods =
     [''scatter'', ''hist'', ''pie'', ''bar'', ''set_title'', ''set_xlabel'', ''set_ylabel'',
      ''grid'', ''tick_params'', ''axis'', ''table'']"

fun get_attr :: "pyval \<Rightarrow> string \<Rightarrow> py_error + unit" where
  "get_attr PyNone a = Inl (AttributeError ''NoneType'' a)"
| "get_attr (PyBool b) a = Inl (AttributeError ''bool'' a)"
| "get_attr (PyStr s) a =
     (if a \<in> set str_methods then Inr () else Inl (AttributeError ''str'' a))"
| "get_attr (PyAxes i) a =
     (if a \<in> set axes_methods then Inr () else Inl (AttributeError ''Axes'' a))"

definition column :: "dataframe \<Rightarrow> string \<Rightarrow> py_error + unit" where
  "column df c = (if c \<in> set (columns df) then Inr () else Inl (KeyError c))"

fun draw :: "pyval \<Rightarrow> string \<Rightarrow> unit action" where
  "draw (PyAxes i) title w = (Ok (), w\<lparr>drawn := drawn w @ [(i, title)]\<rparr>)"
| "draw v title w = (Ok (), w)"

subsection \<open>The chart helpers\<close>

text \<open>
  Each helper records that it was entered, then does what its body does in order: the
  method of \<open>ax\<close> it calls first, the columns that call reads, the drawing, the later
  methods of \<open>ax\<close>. Colours, sizes and labels have no effect on the outcome and are left
  out.
\<close>

definition plot_time_series ::
  "dataframe \<Rightarrow> string \<Rightarrow> string \<Rightarrow> string \<Rightarrow> string \<Rightarrow> pyval \<Rightarrow> unit action" where
  "plot_time_series df x_col y_col title ylabel ax =
     run_all [enter ''plot_time_series'' title,
              lift (get_attr ax ''scatter''), lift (column df x_col), lift (column df y_col),
              draw ax title,
              lift (get_attr ax ''set_title''), lift (get_attr ax ''set_xlabel''),
              lift (get_attr ax ''set_ylabel''), lift (get_attr ax ''grid''),
              lift (get_attr ax ''tick_params'')]"

definition plot_histogram ::
  "dataframe \<Rightarrow> string \<Rightarrow> string \<Rightarrow> string \<Rightarrow> pyval \<Rightarrow> unit action" where
  "plot_histogram df col title xlabel ax =
     run_all [enter ''plot_histogram'' title,
              lift (get_attr ax ''hist''), lift (column df col),
              draw ax title,
              lift (get_attr ax ''set_title''), lift (get_attr ax ''set_xlabel''),
              lift (get_attr ax ''set_ylabel''), lift (get_attr ax ''grid''),
              lift (get_attr ax ''tick_params'')]"

text \<open>
  \<open>plot_pie\<close> counts the values of the column and reads \<open>labels[0]\<close> before it touches
  \<open>ax\<close>; a table without rows has no labels.
\<close>

definition plot_pie :: "dataframe \<Rightarrow> string \<Rightarrow> string \<Rightarrow> pyval \<Rightarrow> unit action" where
  "plot_pie df col title ax =
     run_all [enter ''plot_pie'' title,
              lift (column df col),
              lift (if nrows df = 0 then Inl IndexError else Inr ()),
              lift (get_attr ax ''pie''),
              draw ax title,
              lift (get_attr ax ''set_title'')]"

text \<open>
  The two bar charts return at once when their column is missing; otherwise Seaborn
  draws bars on the axes it is given.
\<close>

definition plot_opcode_distribution :: "dataframe \<Rightarrow> pyval \<Rightarrow> unit action" where
  "plot_opcode_distribution df ax =
     and_then (enter ''plot_opcode_distribution'' ''Opcode Distribution'')
       (\<lambda>u. if ''opcode'' \<notin> set (columns df) then skip
            else run_all [lift (get_attr ax ''bar''),
                          draw ax ''Opcode Distribution'',
                          lift (get_attr ax ''set_title''), lift (get_attr ax ''set_xlabel''),
                          lift (get_attr ax ''set_ylabel''), lift (get_attr ax ''tick_params''),
                          lift (get_attr ax ''tick_params'')])"

definition plot_io_type_distribution :: "dataframe \<Rightarrow> pyval \<Rightarrow> unit action" where
  "plot_io_type_distribution df ax =
     and_then (enter ''plot_io_type_distribution'' ''I/O Type Distribution'')
       (\<lambda>u. if ''io_type'' \<notin> set (columns df) then skip
            else run_all [lift (get_attr ax ''bar''),
                          draw ax ''I/O Type Distribution'',
                          lift (get_attr ax ''set_title''), lift (get_attr ax ''set_xlabel''),
                          lift (get_attr ax ''set_ylabel''), lift (get_attr ax ''tick_params'')])"

text \<open>
  \<open>plot_by_operation_type\<close> and \<open>plot_heatmap\<close> make their own figure and save it to the
  path they are given. The first reads the x and y columns once for each category (so
  only when there are rows) and the y column again for more than 1000 rows.
\<close>

definition plot_by_operation_type ::
  "dataframe \<Rightarrow> string \<Rightarrow> string \<Rightarrow> string \<Rightarrow> string \<Rightarrow> string \<Rightarrow> unit action" where
  "plot_by_operation_type df x_col y_col category_col title output_path =
     run_all [enter ''plot_by_operation_type'' title,
              lift (column df category_col),
              (if nrows df > 0 then run_all [lift (column df x_col), lift (column df y_col)]
               else skip),
              (if nrows df > 1000 then lift (column df y_col) else skip),
              savefig output_path,
              say (ChartSaved output_path)]"

definition plot_heatmap :: "dataframe \<Rightarrow> string \<Rightarrow> string \<Rightarrow> unit action" where
  "plot_heatmap df output_path target_col =
     run_all [enter ''plot_heatmap'' target_col,
              lift (column df ''time''),
              lift (column df ''process''), lift (column df target_col),
              savefig output_path,
              say (ChartSaved output_path)]"

subsection \<open>The three ways to visualize a table\<close>

definition visualize_issue_send_based :: "dataframe \<Rightarrow> string \<Rightarrow> bool \<Rightarrow> unit action" where
  "visualize_issue_send_based df output_dir is_ufs =
     (let category_col = (if is_ufs then ''opcode'' else ''io_type'');
          data_type = (if is_ufs then ''UFS'' else ''Block I/O'');
          stem = (if is_ufs then ''ufs'' else ''block'')
      in and_then (makedirs output_dir)
           (\<lambda>u. if category_col \<notin> set (columns df)
                then say (ColumnNotFound category_col data_type)
                else run_all
                  [plot_by_operation_type df ''time'' ''dtoc'' category_col
                     (data_type @ '' Dispatch to Complete Latency by '' @ category_col)
                     (path_join output_dir (stem @ ''_dtoc_by_'' @ category_col @ ''.png'')),
                   plot_by_operation_type df ''time'' ''ctod'' category_col
                     (data_type @ '' Complete to Dispatch Latency by '' @ category_col)
                     (path_join output_dir (stem @ ''_ctod_by_'' @ category_col @ ''.png'')),
                   plot_by_operation_type df ''time'' ''ctoc'' category_col
                     (data_type @ '' Complete to Complete Latency by '' @ category_col)
                     (path_join output_dir (stem @ ''_ctoc_by_'' @ category_col @ ''.png'')),
                   plot_by_operation_type df ''time'' ''qd'' category_col
                     (data_type @ '' Queue Depth by '' @ category_col)
                     (path_join output_dir (stem @ ''_qd_by_'' @ category_col @ ''.png'')),
                   say (IssueSendCompleted data_type category_col)]))"

text \<open>
  The combined charts draw on the twelve axes of one figure; charts 11 and 12 read their
  columns, then use axes 10 and 11.
\<close>

definition latency_tables :: "dataframe \<Rightarrow> unit action" where
  "latency_tables df =
     run_all [enter ''latency_summary'' ''Latency Summary Statistics'',
              lift (column df ''dtoc''), lift (column df ''ctod''), lift (column df ''ctoc''),
              lift (get_attr (PyAxes 10) ''axis''), lift (get_attr (PyAxes 10) ''axis''),
              lift (get_attr (PyAxes 10) ''table''),
              draw (PyAxes 10) ''Latency Summary Statistics'',
              lift (get_attr (PyAxes 10) ''set_title''),
              enter ''process_statistics'' ''Average DTOC Latency by Process (Top 10)'',
              lift (column df ''process''), lift (column df ''dtoc''),
              lift (get_attr (PyAxes 11) ''bar''),
              draw (PyAxes 11) ''Average DTOC Latency by Process (Top 10)'',
              lift (get_attr (PyAxes 11) ''set_title''), lift (get_attr (PyAxes 11) ''set_xlabel''),
              lift (get_attr (PyAxes 11) ''set_ylabel''),
              lift (get_attr (PyAxes 11) ''tick_params'')]"

definition visualize_ufs_data_combined :: "dataframe \<Rightarrow> string \<Rightarrow> unit action" where
  "visualize_ufs_data_combined df output_path =
     run_all
       [plot_time_series df ''time'' ''lba'' ''LBA Distribution over Time'' ''LBA'' (PyAxes 0),
        plot_time_series df ''time'' ''qd'' ''Queue Depth Distribution over Time''
          ''Queue Depth'' (PyAxes 1),
        plot_time_series df ''time'' ''dtoc'' ''Dispatch to Complete Latency over Time''
          ''Latency (ms)'' (PyAxes 2),
        plot_time_series df ''time'' ''ctod'' ''Complete to Dispatch Latency over Time''
          ''Latency (ms)'' (PyAxes 3),
        plot_time_series df ''time'' ''ctoc'' ''Complete to Complete Latency over Time''
          ''Latency (ms)'' (PyAxes 4),
        plot_histogram df ''dtoc'' ''Dispatch to Complete Latency Distribution''
          ''Latency (ms)'' (PyAxes 5),
        plot_histogram df ''ctod'' ''Complete to Dispatch Latency Distribution''
          ''Latency (ms)'' (PyAxes 6),
        plot_histogram df ''ctoc'' ''Complete to Complete Latency Distribution''
          ''Latency (ms)'' (PyAxes 7),
        plot_pie df ''continuous'' ''UFS Continuity Distribution'' (PyAxes 8),
        plot_opcode_distribution df (PyAxes 9),
        latency_tables df,
        savefig output_path,
        say (ChartSaved output_path)]"

definition visualize_block_data_combined :: "dataframe \<Rightarrow> string \<Rightarrow> unit action" where
  "visualize_block_data_combined df output_path =
     run_all
       [plot_time_series df ''time'' ''sector'' ''Sector Distribution over Time'' ''Sector''
          (PyAxes 0),
        plot_time_series df ''time'' ''qd'' ''Queue Depth Distribution over Time''
          ''Queue Depth'' (PyAxes 1),
        plot_time_series df ''time'' ''dtoc'' ''Dispatch to Complete Latency over Time''
          ''Latency (ms)'' (PyAxes 2),
        plot_time_series df ''time'' ''ctod'' ''Complete to Dispatch Latency over Time''
          ''Latency (ms)'' (PyAxes 3),
        plot_time_series df ''time'' ''ctoc'' ''Complete to Complete Latency over Time''
          ''Latency (ms)'' (PyAxes 4),
        plot_histogram df ''dtoc'' ''Dispatch to Complete Latency Distribution''
          ''Latency (ms)'' (PyAxes 5),
        plot_histogram df ''ctod'' ''Complete to Dispatch Latency Distribution''
          ''Latency (ms)'' (PyAxes 6),
        plot_histogram df ''ctoc'' ''Complete to Complete Latency Distribution''
          ''Latency (ms)'' (PyAxes 7),
        plot_pie df ''continuous'' ''Block I/O Continuity Distribution'' (PyAxes 8),
        plot_io_type_distribution df (PyAxes 9),
        latency_tables df,
        savefig output_path,
        say (ChartSaved output_path)]"

text \<open>
  The default mode. Every helper that takes \<open>ax\<close> is given the path of the file the
  chart is meant for, a string; only \<open>plot_heatmap\<close> takes a path.
\<close>

definition visualize_ufs_data :: "dataframe \<Rightarrow> string \<Rightarrow> unit action" where
  "visualize_ufs_data df output_dir =
     run_all
       [makedirs output_dir,
        plot_time_series df ''time'' ''lba'' ''LBA Distribution over Time'' ''LBA''
          (PyStr (path_join output_dir ''ufs_lba_time.png'')),
        plot_time_series df ''time'' ''qd'' ''Queue Depth Distribution over Time''
          ''Queue Depth'' (PyStr (path_join output_dir ''ufs_qd_time.png'')),
        plot_time_series df ''time'' ''dtoc'' ''Dispatch to Complete Latency over Time''
          ''Latency (ms)'' (PyStr (path_join output_dir ''ufs_dtoc_time.png'')),
        plot_time_series df ''time'' ''ctod'' ''Complete to Dispatch Latency over Time''
          ''Latency (ms)'' (PyStr (path_join output_dir ''ufs_ctod_time.png'')),
        plot_time_series df ''time'' ''ctoc'' ''Complete to Complete Latency over Time''
          ''Latency (ms)'' (PyStr (path_join output_dir ''ufs_ctoc_time.png'')),
        plot_histogram df ''dtoc'' ''Dispatch to Complete Latency Distribution''
          ''Latency (ms)'' (PyStr (path_join output_dir ''ufs_dtoc_hist.png'')),
        plot_histogram df ''ctod'' ''Complete to Dispatch Latency Distribution''
          ''Latency (ms)'' (PyStr (path_join output_dir ''ufs_ctod_hist.png'')),
        plot_histogram df ''ctoc'' ''Complete to Complete Latency Distribution''
          ''Latency (ms)'' (PyStr (path_join output_dir ''ufs_ctoc_hist.png'')),
        plot_pie df ''continuous'' ''UFS Continuity Distribution''
          (PyStr (path_join output_dir ''ufs_continuous_pie.png'')),
        plot_opcode_distribution df (PyStr (path_join output_dir ''ufs_opcode_dist.png'')),
        plot_heatmap df (path_join output_dir ''ufs_process_time_dtoc_heatmap.png'') ''dtoc'',
        say UfsCompleted]"

definition visualize_block_data :: "dataframe \<Rightarrow> string \<Rightarrow> unit action" where
  "visualize_block_data df output_dir =
     run_all
       [makedirs output_dir,
        plot_time_series df ''time'' ''sector'' ''Sector Distribution over Time'' ''Sector''
          (PyStr (path_join output_dir ''block_sector_time.png'')),
        plot_time_series df ''time'' ''qd'' ''Queue Depth Distribution over Time''
          ''Queue Depth'' (PyStr (path_join output_dir ''block_qd_time.png'')),
        plot_time_series df ''time'' ''dtoc'' ''Dispatch to Complete Latency over Time''
          ''Latency (ms)'' (PyStr (path_join output_dir ''block_dtoc_time.png'')),
        plot_time_series df ''time'' ''ctod'' ''Complete to Dispatch Latency over Time''
          ''Latency (ms)'' (PyStr (path_join output_dir ''block_ctod_time.png'')),
        plot_time_series df ''time'' ''ctoc'' ''Complete to Complete Latency over Time''
          ''Latency (ms)'' (PyStr (path_join output_dir ''block_ctoc_time.png'')),
        plot_histogram df ''dtoc'' ''Dispatch to Complete Latency Distribution''
          ''Latency (ms)'' (PyStr (path_join output_dir ''block_dtoc_hist.png'')),
        plot_histogram df ''ctod'' ''Complete to Dispatch Latency Distribution''
          ''Latency (ms)'' (PyStr (path_join output_dir ''block_ctod_hist.png'')),
        plot_histogram df ''ctoc'' ''Complete to Complete Latency Distribution''
          ''Latency (ms)'' (PyStr (path_join output_dir ''block_ctoc_hist.png'')),
        plot_pie df ''continuous'' ''Block I/O Continuity Distribution''
          (PyStr (path_join output_dir ''block_continuous_pie.png'')),
        plot_io_type_distribution df
          (PyStr (path_join output_dir ''block_io_type_dist.png'')),
        plot_heatmap df (path_join output_dir ''block_process_time_dtoc_heatmap.png'') ''dtoc'',
        say BlockCompleted]"

subsection \<open>Loading a file, and \<open>main\<close>\<close>

text \<open>
  \<open>read_parquet\<close> stands for \<open>dd.read_parquet\<close>: a Dask frame, or the message of the
  exception it raises. \<open>load_data\<close> leaves with status 1 when the path does not exist and
  when reading or computing raises; \<open>sys.exit\<close> is no \<open>Exception\<close>, so the handler does not
  catch it.
\<close>

definition load_data :: "(string \<Rightarrow> string + dask_frame) \<Rightarrow> string \<Rightarrow> dataframe action" where
  "load_data read_parquet file_path w =
     (if \<not> path_exists w file_path then
        (SysExit 1, w\<lparr>printed := printed w @ [FileDoesNotExist file_path]\<rparr>)
      else
        (case read_parquet file_path of
           Inl msg \<Rightarrow>
             (SysExit 1, w\<lparr>printed := printed w @ [LoadingFile file_path, ReadFailed msg]\<rparr>)
         | Inr (DaskFrame n computed) \<Rightarrow>
             (case computed of
                Inl msg \<Rightarrow>
                  (SysExit 1,
                   w\<lparr>printed := printed w
                        @ [LoadingFile file_path, LoadedPartitions n, ReadFailed msg]\<rparr>)
              | Inr df \<Rightarrow>
                  (Ok df,
                   w\<lparr>printed := printed w
                        @ [LoadingFile file_path, LoadedPartitions n, ConvertedToPandas,
                           DataShape (nrows df) (length (columns df))]\<rparr>))))"

text \<open>The parsed command line, and the two file names \<open>main\<close> derives from the prefix.\<close>

record args =
  parquet_file :: string
  output_dir :: string
  combined :: bool
  sample :: int
  issue_send :: bool

definition ufs_file :: "args \<Rightarrow> string" where
  "ufs_file a = parquet_file a @ ''_ufs.parquet''"

definition block_file :: "args \<Rightarrow> string" where
  "block_file a = parquet_file a @ ''_block.parquet''"

text \<open>\<open>df.sample(n=args.sample)\<close> under its condition, with the line printed before it.\<close>

definition sample_rows :: "args \<Rightarrow> string \<Rightarrow> dataframe \<Rightarrow> dataframe action" where
  "sample_rows a family df =
     (if sample a > 0 \<and> int (nrows df) > sample a then
        and_then (say (SamplingRows (sample a) family))
          (\<lambda>u w. (Ok (df\<lparr>nrows := nat (sample a)\<rparr>), w))
      else (\<lambda>w. (Ok df, w)))"

text \<open>
  The two halves of \<open>main\<close>, one for each family: the table is loaded and drawn when the
  file exists, and a warning is printed when it does not.
\<close>

definition main_ufs :: "args \<Rightarrow> string \<Rightarrow> (string \<Rightarrow> string + dask_frame) \<Rightarrow> unit action" where
  "main_ufs a out_dir read_parquet w =
     (if path_exists w (ufs_file a) then
        and_then (load_data read_parquet (ufs_file a))
          (\<lambda>loaded. and_then (sample_rows a ''UFS'' loaded)
             (\<lambda>ufs_df.
                if issue_send a then
                  visualize_issue_send_based ufs_df (path_join out_dir ''ufs_issue_send'') True
                else if combined a then
                  visualize_ufs_data_combined ufs_df (path_join out_dir ''ufs_combined.png'')
                else visualize_ufs_data ufs_df (path_join out_dir ''ufs''))) w
      else say (FileNotFoundWarning ''UFS'' (ufs_file a)) w)"

definition main_block :: "args \<Rightarrow> string \<Rightarrow> (string \<Rightarrow> string + dask_frame) \<Rightarrow> unit action" where
  "main_block a out_dir read_parquet w =
     (if path_exists w (block_file a) then
        and_then (load_data read_parquet (block_file a))
          (\<lambda>loaded. and_then (sample_rows a ''Block'' loaded)
             (\<lambda>block_df.
                if issue_send a then
                  visualize_issue_send_based block_df (path_join out_dir ''block_issue_send'')
                    False
                else if combined a then
                  visualize_block_data_combined block_df
                    (path_join out_dir ''block_combined.png'')
                else visualize_block_data block_df (path_join out_dir ''block''))) w
      else say (FileNotFoundWarning ''Block'' (block_file a)) w)"

text \<open>\<open>timestamp\<close> is the formatted time of the run, which names the output directory.\<close>

definition main :: "args \<Rightarrow> string \<Rightarrow> (string \<Rightarrow> string + dask_frame) \<Rightarrow> unit action" where
  "main a timestamp read_parquet =
     run_all [makedirs (path_join (output_dir a) timestamp),
              main_ufs a (path_join (output_dir a) timestamp) read_parquet,
              main_block a (path_join (output_dir a) timestamp) read_parquet,
              say (AllChartsSaved (path_join (output_dir a) timestamp))]"

text \<open>
  When reading a path raises: in \<open>dd.read_parquet\<close> or in \<open>compute()\<close>.
\<close>

definition read_raises :: "(string \<Rightarrow> string + dask_frame) \<Rightarrow> string \<Rightarrow> bool" where
  "read_raises read_parquet p =
     (case read_parquet p of Inl msg \<Rightarrow> True | Inr (DaskFrame n computed) \<Rightarrow> isl computed)"

text \<open>
  Sample inputs: a UFS table of three rows, a world that holds the UFS file of prefix
  \<open>trace\<close> and no Block file, a reader that knows that file, a command line with
  no options set, and a world that holds only the Block file.
\<close>

definition sample_table :: dataframe where
  "sample_table =
     \<lparr>columns = [''time'', ''lba'', ''opcode'', ''qd'', ''dtoc'', ''ctod'', ''ctoc'',
                 ''continuous'', ''process''],
      nrows = 3\<rparr>"

definition sample_world :: world where
  "sample_world =
     \<lparr>fs_files = [''trace_ufs.parquet''], fs_dirs = [], entered = [], drawn = [],
      printed = []\<rparr>"

definition sample_reader :: "string \<Rightarrow> string + dask_frame" where
  "sample_reader p =
     (if p = ''trace_ufs.parquet'' then Inr (DaskFrame 1 (Inr sample_table))
      else Inl ''not a parquet file'')"

definition sample_args :: args where
  "sample_args =
     \<lparr>parquet_file = ''trace'', output_dir = ''./plots'', combined = False, sample = 0,
      issue_send = False\<rparr>"

definition sample_world_block :: world where
  "sample_world_block =
     \<lparr>fs_files = [''trace_block.parquet''], fs_dirs = [], entered = [], drawn = [],
      printed = []\<rparr>"

text \<open>
  More sample inputs: a Block table of two rows, a world that holds both files, a reader
  for which the UFS file is corrupt and the Block file is that table, and the command
  line with \<open>--issue-send\<close>.
\<close>

definition sample_block_table :: dataframe where
  "sample_block_table =
     \<lparr>columns = [''time'', ''sector'', ''io_type'', ''qd'', ''dtoc'', ''ctod'', ''ctoc'',
                 ''continuous'', ''process''],
      nrows = 2\<rparr>"

definition sample_world_both :: world where
  "sample_world_both =
     \<lparr>fs_files = [''trace_ufs.parquet'', ''trace_block.parquet''], fs_dirs = [],
      entered = [], drawn = [], printed = []\<rparr>"

definition block_only_reader :: "string \<Rightarrow> string + dask_frame" where
  "block_only_reader p =
     (if p = ''trace_block.parquet'' then Inr (DaskFrame 1 (Inr sample_block_table))
      else Inl ''corrupt file'')"

definition sample_args_issue_send :: args where
  "sample_args_issue_send =
     \<lparr>parquet_file = ''trace'', output_dir = ''./plots'', combined = False, sample = 0,
      issue_send = True\<rparr>"

text \<open>An action that never leaves the process, in any world.\<close>

definition no_exit :: "'a action \<Rightarrow> bool" where
  "no_exit m = (\<forall>w n. fst (m w) \<noteq> SysExit n)"

section \<open>The server side, from the specification\<close>

text \<open>
  Modelled from the spec: the Stage Pipeline of section 4.1, which runs in the server and
  is not among the sources. \<open>completed\<close> is the number of COMPLETED (5 for log processing,
  4 for CSV conversion) and FAILED is the next number. From a non-terminal stage the
  pipeline emits another event of the same stage, moves to the next stage in the listed
  order, or fails; a terminal stage emits nothing more, and the stream ends only there.
  A job starts in UNKNOWN, before its first event.
\<close>

definition stage_terminal :: "int \<Rightarrow> int \<Rightarrow> bool" where
  "stage_terminal completed s = (s = completed \<or> s = completed + 1)"

definition stage_step :: "int \<Rightarrow> int \<Rightarrow> int \<Rightarrow> bool" where
  "stage_step completed s t =
     (0 \<le> s \<and> s < completed \<and> (t = s \<or> t = s + 1 \<or> t = completed + 1))"

fun stage_walk :: "int \<Rightarrow> int \<Rightarrow> int list \<Rightarrow> bool" where
  "stage_walk completed s [] = stage_terminal completed s"
| "stage_walk completed s (t # ts) = (stage_step completed s t \<and> stage_walk completed t ts)"

text \<open>
  Modelled from the spec: the event stream of one job (sections 6 and 7). Its stages are
  a walk of the pipeline from UNKNOWN, and \<open>error\<close> is set on the FAILED event and on no
  other.
\<close>

definition job_events :: "int \<Rightarrow> Progress list \<Rightarrow> bool" where
  "job_events completed evs =
     (stage_walk completed 0 (map stage evs)
      \<and> list_all (\<lambda>r. HasField (error r) = (stage r = completed + 1)) evs)"

text \<open>
  Modelled from the spec: \<open>ListFiles\<close> of section 4.5, a listing of the object store
  filtered by prefix. \<open>store b\<close> is the ordered list of the paths in bucket \<open>b\<close>.
\<close>

definition ListFiles :: "(string \<Rightarrow> string list) \<Rightarrow> ListFilesRequest \<Rightarrow> string list" where
  "ListFiles store req = filter (prefix (prefix_field req)) (store (bucket req))"

text \<open>
  Modelled from the spec: the names the CSV Writer of section 4.4 gives its files. The
  spec fixes only that a name begins with the request's prefix when there is one
  (scenario E); \<open>stems\<close> are the rest of each name, which the writer chooses.
\<close>

definition csv_file_names :: "ConvertToCsvRequest \<Rightarrow> string list \<Rightarrow> string list" where
  "csv_file_names req stems = map (\<lambda>s. get_str (csv_prefix req) @ s) stems"

section \<open>Stage names agree with the stage numbering\<close>

lemma process_stage_name_cases:
  "process_stage_name c =
     (if c = 0 then ''UNKNOWN'' else if c = 1 then ''DOWNLOADING''
      else if c = 2 then ''PARSING'' else if c = 3 then ''CONVERTING''
      else if c = 4 then ''UPLOADING'' else if c = 5 then ''COMPLETED''
      else if c = 6 then ''FAILED'' else ''UNKNOWN'')"
  by (simp add: process_stage_name_def dict_get_def process_stage_names_def)

lemma csv_stage_name_cases:
  "csv_stage_name c =
     (if c = 0 then ''UNKNOWN'' else if c = 1 then ''DOWNLOADING''
      else if c = 2 then ''CONVERTING'' else if c = 3 then ''UPLOADING''
      else if c = 4 then ''COMPLETED'' else if c = 5 then ''FAILED'' else ''UNKNOWN'')"
  by (simp add: csv_stage_name_def dict_get_def csv_stage_names_def)

text \<open>
  Claim C2. The stages are numbered as the spec lists them for each job kind, the
  client's two dictionaries give every stage's number the stage's own name, and a
  number that belongs to no stage is shown as UNKNOWN.
\<close>

theorem stage_names_match_numbering:
  "map process_stage_code
       [P_UNKNOWN, P_DOWNLOADING, P_PARSING, P_CONVERTING, P_UPLOADING, P_COMPLETED, P_FAILED]
     = [0, 1, 2, 3, 4, 5, 6]
   \<and> map csv_stage_code
       [C_UNKNOWN, C_DOWNLOADING, C_CONVERTING, C_UPLOADING, C_COMPLETED, C_FAILED]
     = [0, 1, 2, 3, 4, 5]
   \<and> process_stage_name (process_stage_code s) = process_stage_label s
   \<and> csv_stage_name (csv_stage_code t) = csv_stage_label t
   \<and> (c < 0 \<or> 6 < c \<longrightarrow> process_stage_name c = ''UNKNOWN'')
   \<and> (c < 0 \<or> 5 < c \<longrightarrow> csv_stage_name c = ''UNKNOWN'')"
proof -
  have "process_stage_name (process_stage_code s) = process_stage_label s"
    by (cases s) (simp_all add: process_stage_name_cases)
  moreover have "csv_stage_name (csv_stage_code t) = csv_stage_label t"
    by (cases t) (simp_all add: csv_stage_name_cases)
  moreover have "c < 0 \<or> 6 < c \<longrightarrow> process_stage_name c = ''UNKNOWN''"
    by (auto simp add: process_stage_name_cases)
  moreover have "c < 0 \<or> 5 < c \<longrightarrow> csv_stage_name c = ''UNKNOWN''"
    by (auto simp add: csv_stage_name_cases)
  ultimately show ?thesis by simp
qed

theorem stage_names_match_numbering_witness:
  "process_stage_name (process_stage_code P_PARSING) = ''PARSING''
   \<and> csv_stage_name (csv_stage_code C_CONVERTING) = ''CONVERTING''
   \<and> ((7::int) < 0 \<or> 6 < (7::int)) \<and> process_stage_name 7 = ''UNKNOWN''
   \<and> csv_stage_name 7 = ''UNKNOWN''"
  using stage_names_match_numbering [of P_PARSING C_CONVERTING 7] by simp

section \<open>The monitoring loops and the event stream\<close>

text \<open>
  Which events a loop reads: those before the first terminal one, and that one.
\<close>

lemma loop_consumed_process:
  "fst (process_logs_loop jid (map Event evs))
     = takeWhile (\<lambda>r. stage r \<noteq> 5 \<and> stage r \<noteq> 6) evs
       @ take 1 (dropWhile (\<lambda>r. stage r \<noteq> 5 \<and> stage r \<noteq> 6) evs)"
  by (induction evs arbitrary: jid) (simp_all add: split_beta)

lemma loop_consumed_csv:
  "fst (convert_to_csv_loop jid (map Event evs))
     = takeWhile (\<lambda>r. stage r \<noteq> 4 \<and> stage r \<noteq> 5) evs
       @ take 1 (dropWhile (\<lambda>r. stage r \<noteq> 4 \<and> stage r \<noteq> 5) evs)"
  by (induction evs arbitrary: jid) (simp_all add: split_beta)

text \<open>
  A walk of the pipeline never goes down and stays within the stage numbers; from a
  non-terminal stage it emits at least one event, its last event is terminal and no
  earlier one is.
\<close>

lemma stage_walk_sorted:
  "stage_walk c s ts \<Longrightarrow> 0 \<le> c \<Longrightarrow> s \<le> c + 1 \<Longrightarrow> sorted (s # ts) \<and> (\<forall>t\<in>set ts. t \<le> c + 1)"
proof (induction ts arbitrary: s)
  case Nil then show ?case by simp
next
  case (Cons t ts)
  then have st: "stage_step c s t" and w: "stage_walk c t ts" by simp_all
  from st have le: "s \<le> t" "t \<le> c + 1" by (auto simp: stage_step_def)
  from Cons.IH[OF w Cons.prems(2) le(2)] le show ?case by auto
qed

lemma stage_walk_shape:
  "stage_walk c s ts \<Longrightarrow> \<not> stage_terminal c s \<Longrightarrow>
     ts \<noteq> [] \<and> stage_terminal c (last ts) \<and> list_all (\<lambda>t. \<not> stage_terminal c t) (butlast ts)"
proof (induction ts arbitrary: s)
  case Nil then show ?case by simp
next
  case (Cons t ts)
  then have st: "stage_step c s t" and w: "stage_walk c t ts" by simp_all
  show ?case
  proof (cases "stage_terminal c t")
    case True
    with w have "ts = []" by (cases ts) (auto simp: stage_step_def stage_terminal_def)
    with True show ?thesis by simp
  next
    case False
    from Cons.IH[OF w False] False show ?thesis by auto
  qed
qed

lemma walk_from_unknown:
  assumes "stage_walk c 0 ts" and "0 < c"
  shows "sorted ts \<and> ts \<noteq> [] \<and> stage_terminal c (last ts)
         \<and> list_all (\<lambda>t. \<not> stage_terminal c t) (butlast ts)"
proof -
  from assms have "sorted (0 # ts) \<and> (\<forall>t\<in>set ts. t \<le> c + 1)"
    by (intro stage_walk_sorted) simp_all
  moreover from assms have "\<not> stage_terminal c 0" by (simp add: stage_terminal_def)
  with assms(1) have "ts \<noteq> [] \<and> stage_terminal c (last ts)
      \<and> list_all (\<lambda>t. \<not> stage_terminal c t) (butlast ts)"
    by (rule stage_walk_shape)
  ultimately show ?thesis by simp
qed

lemma walk_events:
  assumes "stage_walk c 0 (map stage evs)" and "0 < c"
  shows "sorted (map stage evs) \<and> evs \<noteq> [] \<and> stage_terminal c (stage (last evs))
         \<and> list_all (\<lambda>r. \<not> stage_terminal c (stage r)) (butlast evs)"
proof -
  from walk_from_unknown [OF assms]
  have s: "sorted (map stage evs)" and ne: "map stage evs \<noteq> []"
    and l: "stage_terminal c (last (map stage evs))"
    and b: "list_all (\<lambda>t. \<not> stage_terminal c t) (butlast (map stage evs))"
    by simp_all
  from ne have ne': "evs \<noteq> []" by simp
  from l ne' have "stage_terminal c (stage (last evs))" by (simp add: last_map)
  moreover from b have "list_all (\<lambda>r. \<not> stage_terminal c (stage r)) (butlast evs)"
    by (simp add: map_butlast [symmetric] list_all_iff)
  ultimately show ?thesis using s ne' by simp
qed

text \<open>
  On a stream whose only terminal event is the last, a loop reads every event.
\<close>

lemma process_loop_all:
  "list_all (\<lambda>r. \<not> stage_terminal 5 (stage r)) (butlast evs) \<Longrightarrow>
   fst (process_logs_loop jid (map Event evs)) = evs"
  by (induction evs arbitrary: jid) (auto simp: split_beta stage_terminal_def split: if_splits)

lemma csv_loop_all:
  "list_all (\<lambda>r. \<not> stage_terminal 4 (stage r)) (butlast evs) \<Longrightarrow>
   fst (convert_to_csv_loop jid (map Event evs)) = evs"
  by (induction evs arbitrary: jid) (auto simp: split_beta stage_terminal_def split: if_splits)

text \<open>
  Claim C3. The stages a job emits never decrease and end in exactly one terminal
  stage, the last event of the stream; the client's loops read the events up to and
  including the first whose stage is COMPLETED or FAILED (5 or 6 for log processing, 4 or
  5 for CSV conversion) and stop on no other event, so they read the whole stream of a
  job. The first two parts hold of any list of events, the last two of the streams of
  the pipeline as the spec describes it.
\<close>

theorem client_reads_to_first_terminal:
  "fst (process_logs_loop jid (map Event evs))
     = takeWhile (\<lambda>r. stage r \<noteq> 5 \<and> stage r \<noteq> 6) evs
       @ take 1 (dropWhile (\<lambda>r. stage r \<noteq> 5 \<and> stage r \<noteq> 6) evs)
   \<and> fst (convert_to_csv_loop jid (map Event cvs))
     = takeWhile (\<lambda>r. stage r \<noteq> 4 \<and> stage r \<noteq> 5) cvs
       @ take 1 (dropWhile (\<lambda>r. stage r \<noteq> 4 \<and> stage r \<noteq> 5) cvs)
   \<and> (stage_walk 5 0 (map stage evs) \<longrightarrow>
        sorted (map stage evs) \<and> evs \<noteq> [] \<and> stage_terminal 5 (stage (last evs))
        \<and> list_all (\<lambda>r. \<not> stage_terminal 5 (stage r)) (butlast evs)
        \<and> fst (process_logs_loop jid (map Event evs)) = evs)
   \<and> (stage_walk 4 0 (map stage cvs) \<longrightarrow>
        sorted (map stage cvs) \<and> cvs \<noteq> [] \<and> stage_terminal 4 (stage (last cvs))
        \<and> list_all (\<lambda>r. \<not> stage_terminal 4 (stage r)) (butlast cvs)
        \<and> fst (convert_to_csv_loop jid (map Event cvs)) = cvs)"
proof -
  have p: "stage_walk 5 0 (map stage evs) \<longrightarrow>
        sorted (map stage evs) \<and> evs \<noteq> [] \<and> stage_terminal 5 (stage (last evs))
        \<and> list_all (\<lambda>r. \<not> stage_terminal 5 (stage r)) (butlast evs)
        \<and> fst (process_logs_loop jid (map Event evs)) = evs"
  proof
    assume "stage_walk 5 0 (map stage evs)"
    then have w: "sorted (map stage evs) \<and> evs \<noteq> [] \<and> stage_terminal 5 (stage (last evs))
         \<and> list_all (\<lambda>r. \<not> stage_terminal 5 (stage r)) (butlast evs)"
      by (rule walk_events) simp
    then have "fst (process_logs_loop jid (map Event evs)) = evs"
      by (intro process_loop_all) simp
    with w show "sorted (map stage evs) \<and> evs \<noteq> [] \<and> stage_terminal 5 (stage (last evs))
        \<and> list_all (\<lambda>r. \<not> stage_terminal 5 (stage r)) (butlast evs)
        \<and> fst (process_logs_loop jid (map Event evs)) = evs" by simp
  qed
  have c: "stage_walk 4 0 (map stage cvs) \<longrightarrow>
        sorted (map stage cvs) \<and> cvs \<noteq> [] \<and> stage_terminal 4 (stage (last cvs))
        \<and> list_all (\<lambda>r. \<not> stage_terminal 4 (stage r)) (butlast cvs)
        \<and> fst (convert_to_csv_loop jid (map Event cvs)) = cvs"
  proof
    assume "stage_walk 4 0 (map stage cvs)"
    then have w: "sorted (map stage cvs) \<and> cvs \<noteq> [] \<and> stage_terminal 4 (stage (last cvs))
         \<and> list_all (\<lambda>r. \<not> stage_terminal 4 (stage r)) (butlast cvs)"
      by (rule walk_events) simp
    then have "fst (convert_to_csv_loop jid (map Event cvs)) = cvs"
      by (intro csv_loop_all) simp
    with w show "sorted (map stage cvs) \<and> cvs \<noteq> [] \<and> stage_terminal 4 (stage (last cvs))
        \<and> list_all (\<lambda>r. \<not> stage_terminal 4 (stage r)) (butlast cvs)
        \<and> fst (convert_to_csv_loop jid (map Event cvs)) = cvs" by simp
  qed
  from p c show ?thesis
    by (simp only: loop_consumed_process loop_consumed_csv simp_thms)
qed

theorem client_reads_to_first_terminal_witness:
  "stage_walk 5 0 (map stage [sample_event 1 None, sample_event 2 None, sample_event 2 None,
       sample_event 3 None, sample_event 4 None, sample_event 5 None])
   \<and> fst (process_logs_loop None (map Event [sample_event 1 None, sample_event 2 None,
       sample_event 2 None, sample_event 3 None, sample_event 4 None, sample_event 5 None]))
     = [sample_event 1 None, sample_event 2 None, sample_event 2 None,
       sample_event 3 None, sample_event 4 None, sample_event 5 None]
   \<and> stage_walk 4 0 (map stage [sample_event 1 None, sample_event 2 None,
       sample_event 5 (Some ''conversion failed'')])
   \<and> fst (convert_to_csv_loop None (map Event [sample_event 1 None, sample_event 2 None,
       sample_event 5 (Some ''conversion failed'')]))
     = [sample_event 1 None, sample_event 2 None, sample_event 5 (Some ''conversion failed'')]"
proof -
  let ?p = "[sample_event 1 None, sample_event 2 None, sample_event 2 None,
       sample_event 3 None, sample_event 4 None, sample_event 5 None]"
  let ?c = "[sample_event 1 None, sample_event 2 None,
       sample_event 5 (Some ''conversion failed'')]"
  have a: "stage_walk 5 0 (map stage ?p)"
    by (simp add: sample_event_def stage_step_def stage_terminal_def)
  have b: "stage_walk 4 0 (map stage ?c)"
    by (simp add: sample_event_def stage_step_def stage_terminal_def)
  note t = client_reads_to_first_terminal [of None ?p ?c]
  from t a have "fst (process_logs_loop None (map Event ?p)) = ?p" by blast
  moreover from t b have "fst (convert_to_csv_loop None (map Event ?c)) = ?c" by blast
  ultimately show ?thesis using a b by blast
qed

subsection \<open>The FAILED event\<close>

lemma process_event_lines_nonempty: "process_event_lines jid r \<noteq> []"
  by (simp add: process_event_lines_def)

lemma csv_event_lines_nonempty: "csv_event_lines jid r \<noteq> []"
  by (simp add: csv_event_lines_def)

lemma process_loop_prints: "evs \<noteq> [] \<Longrightarrow> snd (process_logs_loop jid (map Event evs)) \<noteq> []"
  by (cases evs) (simp_all add: split_beta process_event_lines_nonempty)

lemma csv_loop_prints: "evs \<noteq> [] \<Longrightarrow> snd (convert_to_csv_loop jid (map Event evs)) \<noteq> []"
  by (cases evs) (simp_all add: split_beta csv_event_lines_nonempty)

lemma failed_last_process:
  "evs \<noteq> [] \<Longrightarrow> list_all (\<lambda>r. \<not> stage_terminal 5 (stage r)) (butlast evs) \<Longrightarrow>
   stage (last evs) = 6 \<Longrightarrow>
   last (snd (process_logs_loop jid (map Event evs)))
     = ProcessingFailed (if HasField (error (last evs)) then get_str (error (last evs))
                         else ''Unknown error'')"
proof (induction evs arbitrary: jid)
  case Nil
  then show ?case by simp
next
  case (Cons r evs)
  show ?case
  proof (cases "evs = []")
    case True
    with Cons.prems show ?thesis by simp
  next
    case False
    with Cons.prems have nt: "stage r \<noteq> 5" "stage r \<noteq> 6"
      and rest: "list_all (\<lambda>r. \<not> stage_terminal 5 (stage r)) (butlast evs)"
      and l: "stage (last evs) = 6"
      by (simp_all add: stage_terminal_def)
    from False have ne: "snd (process_logs_loop (if jid = None then Some (job_id r) else jid)
                               (map Event evs)) \<noteq> []"
      by (rule process_loop_prints)
    from Cons.IH [OF False rest l] nt ne False show ?thesis
      by (simp add: split_beta)
  qed
qed

lemma failed_last_csv:
  "evs \<noteq> [] \<Longrightarrow> list_all (\<lambda>r. \<not> stage_terminal 4 (stage r)) (butlast evs) \<Longrightarrow>
   stage (last evs) = 5 \<Longrightarrow>
   last (snd (convert_to_csv_loop jid (map Event evs)))
     = CsvFailed (if HasField (error (last evs)) then get_str (error (last evs))
                  else ''Unknown error'')"
proof (induction evs arbitrary: jid)
  case Nil
  then show ?case by simp
next
  case (Cons r evs)
  show ?case
  proof (cases "evs = []")
    case True
    with Cons.prems show ?thesis by simp
  next
    case False
    with Cons.prems have nt: "stage r \<noteq> 4" "stage r \<noteq> 5"
      and rest: "list_all (\<lambda>r. \<not> stage_terminal 4 (stage r)) (butlast evs)"
      and l: "stage (last evs) = 5"
      by (simp_all add: stage_terminal_def)
    from False have ne: "snd (convert_to_csv_loop (if jid = None then Some (job_id r) else jid)
                               (map Event evs)) \<noteq> []"
      by (rule csv_loop_prints)
    from Cons.IH [OF False rest l] nt ne False show ?thesis
      by (simp add: split_beta)
  qed
qed

lemma walk_failed_once:
  "evs \<noteq> [] \<Longrightarrow> list_all (\<lambda>r. \<not> stage_terminal c (stage r)) (butlast evs) \<Longrightarrow>
   stage (last evs) = c + 1 \<Longrightarrow> filter (\<lambda>r. stage r = c + 1) evs = [last evs]"
  by (induction evs) (auto simp: stage_terminal_def split: if_splits)

text \<open>
  Claim C4. A job that fails emits one FAILED event, the last of its stream, with the
  error field set; on a FAILED event the client prints the error field when it is set
  and \<open>Unknown error\<close> only when it is not, so on the stream of a failed job the last
  line it prints shows the job's error message. The first two parts are the client's
  FAILED branches on any event; the last two are about the streams of the pipeline as
  the spec describes it.
\<close>

theorem failed_event_carries_error:
  "(stage r = 6 \<longrightarrow>
      snd (process_logs_loop jid (Event r # rest))
        = process_event_lines jid r
          @ [ProcessingFailed (case error r of Some m \<Rightarrow> m | None \<Rightarrow> ''Unknown error'')])
   \<and> (stage r = 5 \<longrightarrow>
      snd (convert_to_csv_loop jid (Event r # rest))
        = csv_event_lines jid r
          @ [CsvFailed (case error r of Some m \<Rightarrow> m | None \<Rightarrow> ''Unknown error'')])
   \<and> (job_events 5 evs \<and> stage (last evs) = 6 \<longrightarrow>
        filter (\<lambda>e. stage e = 6) evs = [last evs]
        \<and> (\<exists>m. error (last evs) = Some m
               \<and> last (snd (process_logs_loop jid (map Event evs))) = ProcessingFailed m))
   \<and> (job_events 4 cvs \<and> stage (last cvs) = 5 \<longrightarrow>
        filter (\<lambda>e. stage e = 5) cvs = [last cvs]
        \<and> (\<exists>m. error (last cvs) = Some m
               \<and> last (snd (convert_to_csv_loop jid (map Event cvs))) = CsvFailed m))"
proof -
  have one: "stage r = 6 \<longrightarrow>
      snd (process_logs_loop jid (Event r # rest))
        = process_event_lines jid r
          @ [ProcessingFailed (case error r of Some m \<Rightarrow> m | None \<Rightarrow> ''Unknown error'')]"
    by (simp add: HasField_def get_str_def split: option.split)
  have two: "stage r = 5 \<longrightarrow>
      snd (convert_to_csv_loop jid (Event r # rest))
        = csv_event_lines jid r
          @ [CsvFailed (case error r of Some m \<Rightarrow> m | None \<Rightarrow> ''Unknown error'')]"
    by (simp add: HasField_def get_str_def split: option.split)
  have three: "job_events 5 evs \<and> stage (last evs) = 6 \<longrightarrow>
        filter (\<lambda>e. stage e = 6) evs = [last evs]
        \<and> (\<exists>m. error (last evs) = Some m
               \<and> last (snd (process_logs_loop jid (map Event evs))) = ProcessingFailed m)"
  proof
    assume h: "job_events 5 evs \<and> stage (last evs) = 6"
    then have "stage_walk 5 0 (map stage evs)" by (simp add: job_events_def)
    then have w: "sorted (map stage evs) \<and> evs \<noteq> [] \<and> stage_terminal 5 (stage (last evs))
         \<and> list_all (\<lambda>r. \<not> stage_terminal 5 (stage r)) (butlast evs)"
      by (rule walk_events) simp
    from w h have f: "filter (\<lambda>e. stage e = 5 + 1) evs = [last evs]"
      by (intro walk_failed_once) simp_all
    from w have "last evs \<in> set evs" by simp
    with h have "HasField (error (last evs))"
      by (auto simp: job_events_def list_all_iff)
    then obtain m where m: "error (last evs) = Some m"
      by (cases "error (last evs)") (simp_all add: HasField_def)
    from w h have "last (snd (process_logs_loop jid (map Event evs)))
       = ProcessingFailed (if HasField (error (last evs)) then get_str (error (last evs))
                           else ''Unknown error'')"
      by (intro failed_last_process) simp_all
    with m have "last (snd (process_logs_loop jid (map Event evs))) = ProcessingFailed m"
      by (simp add: HasField_def get_str_def)
    with f m show "filter (\<lambda>e. stage e = 6) evs = [last evs]
        \<and> (\<exists>m. error (last evs) = Some m
               \<and> last (snd (process_logs_loop jid (map Event evs))) = ProcessingFailed m)"
      by simp
  qed
  have four: "job_events 4 cvs \<and> stage (last cvs) = 5 \<longrightarrow>
        filter (\<lambda>e. stage e = 5) cvs = [last cvs]
        \<and> (\<exists>m. error (last cvs) = Some m
               \<and> last (snd (convert_to_csv_loop jid (map Event cvs))) = CsvFailed m)"
  proof
    assume h: "job_events 4 cvs \<and> stage (last cvs) = 5"
    then have "stage_walk 4 0 (map stage cvs)" by (simp add: job_events_def)
    then have w: "sorted (map stage cvs) \<and> cvs \<noteq> [] \<and> stage_terminal 4 (stage (last cvs))
         \<and> list_all (\<lambda>r. \<not> stage_terminal 4 (stage r)) (butlast cvs)"
      by (rule walk_events) simp
    from w h have f: "filter (\<lambda>e. stage e = 4 + 1) cvs = [last cvs]"
      by (intro walk_failed_once) simp_all
    from w have "last cvs \<in> set cvs" by simp
    with h have "HasField (error (last cvs))"
      by (auto simp: job_events_def list_all_iff)
    then obtain m where m: "error (last cvs) = Some m"
      by (cases "error (last cvs)") (simp_all add: HasField_def)
    from w h have "last (snd (convert_to_csv_loop jid (map Event cvs)))
       = CsvFailed (if HasField (error (last cvs)) then get_str (error (last cvs))
                           else ''Unknown error'')"
      by (intro failed_last_csv) simp_all
    with m have "last (snd (convert_to_csv_loop jid (map Event cvs))) = CsvFailed m"
      by (simp add: HasField_def get_str_def)
    with f m show "filter (\<lambda>e. stage e = 5) cvs = [last cvs]
        \<and> (\<exists>m. error (last cvs) = Some m
               \<and> last (snd (convert_to_csv_loop jid (map Event cvs))) = CsvFailed m)"
      by simp
  qed
  from one two three four show ?thesis by blast
qed

theorem failed_event_carries_error_witness:
  "job_events 5 [sample_event 1 None, sample_event 2 None,
                 sample_event 6 (Some ''source not found'')]
   \<and> stage (last [sample_event 1 None, sample_event 2 None,
                 sample_event 6 (Some ''source not found'')]) = 6
   \<and> last (snd (process_logs_loop None (map Event [sample_event 1 None, sample_event 2 None,
                 sample_event 6 (Some ''source not found'')])))
       = ProcessingFailed ''source not found''
   \<and> job_events 4 [sample_event 1 None, sample_event 5 (Some ''upload failed'')]
   \<and> stage (last [sample_event 1 None, sample_event 5 (Some ''upload failed'')]) = 5
   \<and> last (snd (convert_to_csv_loop None (map Event [sample_event 1 None,
                 sample_event 5 (Some ''upload failed'')])))
       = CsvFailed ''upload failed''"
proof -
  let ?p = "[sample_event 1 None, sample_event 2 None,
             sample_event 6 (Some ''source not found'')]"
  let ?c = "[sample_event 1 None, sample_event 5 (Some ''upload failed'')]"
  have a: "job_events 5 ?p \<and> stage (last ?p) = 6"
    by (simp add: job_events_def sample_event_def stage_step_def stage_terminal_def HasField_def)
  have b: "job_events 4 ?c \<and> stage (last ?c) = 5"
    by (simp add: job_events_def sample_event_def stage_step_def stage_terminal_def HasField_def)
  have ea: "error (last ?p) = Some ''source not found''" by (simp add: sample_event_def)
  have eb: "error (last ?c) = Some ''upload failed''" by (simp add: sample_event_def)
  note t = failed_event_carries_error [of "last ?p" None "[]" ?p ?c]
  from t a have "\<exists>m. error (last ?p) = Some m
      \<and> last (snd (process_logs_loop None (map Event ?p))) = ProcessingFailed m" by blast
  with ea have x: "last (snd (process_logs_loop None (map Event ?p)))
      = ProcessingFailed ''source not found''" by auto
  from t b have "\<exists>m. error (last ?c) = Some m
      \<and> last (snd (convert_to_csv_loop None (map Event ?c))) = CsvFailed m" by blast
  with eb have y: "last (snd (convert_to_csv_loop None (map Event ?c)))
      = CsvFailed ''upload failed''" by auto
  from a b x y show ?thesis by blast
qed

section \<open>Requests and filter options\<close>

text \<open>
  Claim C1, as the code has it. grpc\_client.py defines no \<open>create_filter_options\<close>, so
  line 12 of the filter-test driver raises \<open>ImportError\<close>; \<open>process_logs\<close> and
  \<open>convert_to_csv\<close> take no \<open>filter_options\<close> parameter, so the driver's calls would raise
  \<open>TypeError\<close>; and the requests the two functions build leave the filter options unset
  whatever the caller passes.
\<close>

theorem filter_options_unsupported:
  "filter_test_import = Inl (ImportError ''create_filter_options'')
   \<and> check_keywords process_logs_params example_time_filter_keywords
       = Inl (TypeError ''filter_options'')
   \<and> check_keywords convert_to_csv_params example_csv_with_filter_keywords
       = Inl (TypeError ''filter_options'')
   \<and> filter_options (process_logs_request sb sp tb tp lt cs) = None
   \<and> csv_filter_options (convert_to_csv_request sb sp tb tp pfx) = None"
  by (simp add: filter_test_import_def import_from_def grpc_client_names_def
      check_keywords_def process_logs_params_def convert_to_csv_params_def
      example_time_filter_keywords_def example_csv_with_filter_keywords_def
      process_logs_request_def convert_to_csv_request_def Let_def)

text \<open>
  Claim C6. A non-empty \<open>csv_prefix\<close> is carried by the request, and every name the CSV
  writer gives a file then begins with it; without a \<open>csv_prefix\<close> the field stays
  unset.
\<close>

theorem csv_prefix_carried:
  "(p \<noteq> [] \<longrightarrow>
      csv_prefix (convert_to_csv_request sb sp tb tp (Some p)) = Some p
      \<and> list_all (prefix p) (csv_file_names (convert_to_csv_request sb sp tb tp (Some p)) stems))
   \<and> csv_prefix (convert_to_csv_request sb sp tb tp None) = None"
  by (simp add: convert_to_csv_request_def py_of_str_option_def csv_file_names_def
      get_str_def list_all_iff)

theorem csv_prefix_carried_witness:
  "''myprefix'' \<noteq> []
   \<and> csv_prefix (convert_to_csv_request ''trace'' ''output/parquet/ufs.parquet'' ''trace''
        ''output/csv'' (Some ''myprefix'')) = Some ''myprefix''
   \<and> csv_file_names (convert_to_csv_request ''trace'' ''output/parquet/ufs.parquet'' ''trace''
        ''output/csv'' (Some ''myprefix'')) [''_0.csv'', ''_1.csv'']
       = [''myprefix_0.csv'', ''myprefix_1.csv'']"
  using csv_prefix_carried [of "''myprefix''" "''trace''" "''output/parquet/ufs.parquet''"
      "''trace''" "''output/csv''" "[''_0.csv'', ''_1.csv'']"]
  by (simp add: csv_file_names_def get_str_def)

text \<open>
  Claim C8. An empty \<open>csv_prefix\<close> is the same as none: the request is the same, with
  the field unset, and so is everything \<open>convert_to_csv\<close> prints.
\<close>

theorem empty_csv_prefix_is_no_prefix:
  "convert_to_csv_request sb sp tb tp (Some []) = convert_to_csv_request sb sp tb tp None
   \<and> csv_prefix (convert_to_csv_request sb sp tb tp (Some [])) = None
   \<and> convert_to_csv stub sb sp tb tp (Some []) = convert_to_csv stub sb sp tb tp None"
  by (simp add: convert_to_csv_request_def convert_to_csv_def py_of_str_option_def)

section \<open>Job status and file listing\<close>

text \<open>
  Claim C5, as the code has it. The status of a job that is still running has \<open>success\<close>
  unset; reading the field gives \<open>False\<close>, not \<open>None\<close>, so the test
  \<open>response.success is not None\<close> holds and \<open>get_job_status\<close> prints the result line
  for a failure, with an empty error text.
\<close>

theorem running_job_shown_failed:
  "get_job_status (\<lambda>j. Inr running_job_status) ''job-1''
     = [StatusHeader ''job-1'', StatusStage ''PARSING'', StatusProgress 40,
        StatusMessage ''Parsing'', StatusRecords 1000, StatusCompleted False,
        ResultFailed '''']"
  by (simp add: get_job_status_def running_job_status_def get_bool_def get_str_def
      process_stage_name_cases)

text \<open>
  Claim C7. Without a prefix \<open>list_files\<close> sends the empty prefix, for which the
  listing is the whole bucket; of the paths it gets back it prints each one, or the
  no-files notice when there is none, and their number as the total.
\<close>

theorem list_files_without_prefix:
  "list_files_request b None = \<lparr>bucket = b, prefix_field = []\<rparr>
   \<and> ListFiles store (list_files_request b None) = store b
   \<and> (stub (list_files_request b None) = Inr fs \<longrightarrow>
        list_files stub b None
          = [ListHeader b [], Separator]
            @ (if fs = [] then [NoFilesFound] else map ListedFile fs)
            @ [TotalLine (length fs)])
   \<and> list_files (\<lambda>req. Inr (ListFiles store req)) b None
       = [ListHeader b [], Separator]
         @ (if store b = [] then [NoFilesFound] else map ListedFile (store b))
         @ [TotalLine (length (store b))]"
  by (simp add: list_files_request_def ListFiles_def list_files_def default_arg_def)

theorem list_files_without_prefix_witness:
  "(\<lambda>req. if bucket req = ''trace-logs'' \<and> prefix_field req = []
           then Inr [''logs/a.csv'', ''out/b.parquet''] else Inr [])
      (list_files_request ''trace-logs'' None) = Inr [''logs/a.csv'', ''out/b.parquet'']
   \<and> list_files (\<lambda>req. if bucket req = ''trace-logs'' \<and> prefix_field req = []
           then Inr [''logs/a.csv'', ''out/b.parquet''] else Inr []) ''trace-logs'' None
       = [ListHeader ''trace-logs'' [], Separator, ListedFile ''logs/a.csv'',
          ListedFile ''out/b.parquet'', TotalLine 2]"
proof -
  let ?stub = "\<lambda>req. if bucket req = ''trace-logs'' \<and> prefix_field req = []
           then Inr [''logs/a.csv'', ''out/b.parquet''] else Inr []"
  have h: "?stub (list_files_request ''trace-logs'' None) = Inr [''logs/a.csv'', ''out/b.parquet'']"
    by (simp add: list_files_request_def default_arg_def)
  from list_files_without_prefix [of "''trace-logs''" "\<lambda>b. []" ?stub "[''logs/a.csv'', ''out/b.parquet'']"] h
  have "list_files ?stub ''trace-logs'' None
       = [ListHeader ''trace-logs'' [], Separator]
            @ (if [''logs/a.csv'', ''out/b.parquet''] = [] then [NoFilesFound]
               else map ListedFile [''logs/a.csv'', ''out/b.parquet''])
            @ [TotalLine (length [''logs/a.csv'', ''out/b.parquet''])]" by blast
  with h show ?thesis by simp
qed

section \<open>The default charts\<close>

lemma str_has_no_scatter: "get_attr (PyStr p) ''scatter'' = Inl (AttributeError ''str'' ''scatter'')"
  by (simp add: str_methods_def)

lemma plot_time_series_on_path:
  "plot_time_series df x_col y_col title ylabel (PyStr p) w
     = (Exc (AttributeError ''str'' ''scatter''),
        w\<lparr>entered := entered w @ [(''plot_time_series'', title)]\<rparr>)"
  by (simp add: plot_time_series_def enter_def lift_def str_has_no_scatter del: get_attr.simps)

lemma visualize_ufs_data_result:
  "visualize_ufs_data df dir w =
     (if dir \<in> set (fs_files w) then (Exc (FileExistsError dir), w)
      else (Exc (AttributeError ''str'' ''scatter''),
            w\<lparr>fs_dirs := List.insert dir (fs_dirs w),
               entered := entered w @ [(''plot_time_series'', ''LBA Distribution over Time'')]\<rparr>))"
  by (simp add: visualize_ufs_data_def makedirs_def plot_time_series_on_path)

lemma visualize_block_data_result:
  "visualize_block_data df dir w =
     (if dir \<in> set (fs_files w) then (Exc (FileExistsError dir), w)
      else (Exc (AttributeError ''str'' ''scatter''),
            w\<lparr>fs_dirs := List.insert dir (fs_dirs w),
               entered := entered w @ [(''plot_time_series'', ''Sector Distribution over Time'')]\<rparr>))"
  by (simp add: visualize_block_data_def makedirs_def plot_time_series_on_path)

text \<open>
  Claim C9. \<open>visualize_ufs_data\<close> and \<open>visualize_block_data\<close> never return normally,
  for any table: they save no file, draw nothing and print nothing, and once the output
  directory is made they raise \<open>AttributeError\<close> in the first chart call, where
  \<open>plot_time_series\<close> looks up \<open>scatter\<close> on the path string it was given as \<open>ax\<close>.
\<close>

theorem default_mode_fails_at_first_chart:
  "fst (visualize_ufs_data df dir w) \<noteq> Ok ()
   \<and> fs_files (snd (visualize_ufs_data df dir w)) = fs_files w
   \<and> drawn (snd (visualize_ufs_data df dir w)) = drawn w
   \<and> printed (snd (visualize_ufs_data df dir w)) = printed w
   \<and> (dir \<notin> set (fs_files w) \<longrightarrow>
        visualize_ufs_data df dir w
          = (Exc (AttributeError ''str'' ''scatter''),
             w\<lparr>fs_dirs := List.insert dir (fs_dirs w),
                entered := entered w @ [(''plot_time_series'', ''LBA Distribution over Time'')]\<rparr>))
   \<and> fst (visualize_block_data df dir w) \<noteq> Ok ()
   \<and> fs_files (snd (visualize_block_data df dir w)) = fs_files w
   \<and> drawn (snd (visualize_block_data df dir w)) = drawn w
   \<and> printed (snd (visualize_block_data df dir w)) = printed w
   \<and> (dir \<notin> set (fs_files w) \<longrightarrow>
        visualize_block_data df dir w
          = (Exc (AttributeError ''str'' ''scatter''),
             w\<lparr>fs_dirs := List.insert dir (fs_dirs w),
                entered := entered w @ [(''plot_time_series'', ''Sector Distribution over Time'')]\<rparr>))"
  by (simp add: visualize_ufs_data_result visualize_block_data_result)

theorem default_mode_fails_at_first_chart_witness:
  "''plots/ufs'' \<notin> set (fs_files sample_world)
   \<and> visualize_ufs_data sample_table ''plots/ufs'' sample_world
       = (Exc (AttributeError ''str'' ''scatter''),
          sample_world\<lparr>fs_dirs := [''plots/ufs''],
             entered := [(''plot_time_series'', ''LBA Distribution over Time'')]\<rparr>)
   \<and> visualize_block_data sample_table ''plots/ufs'' sample_world
       = (Exc (AttributeError ''str'' ''scatter''),
          sample_world\<lparr>fs_dirs := [''plots/ufs''],
             entered := [(''plot_time_series'', ''Sector Distribution over Time'')]\<rparr>)"
proof -
  have h: "''plots/ufs'' \<notin> set (fs_files sample_world)"
    by (simp add: sample_world_def)
  from default_mode_fails_at_first_chart [of sample_table "''plots/ufs''" sample_world] h
  show ?thesis by (simp add: sample_world_def)
qed

section \<open>Loading the two families\<close>

lemma load_data_exit:
  "(\<exists>n. fst (load_data rp p w) = SysExit n) = (\<not> path_exists w p \<or> read_raises rp p)"
  by (auto simp add: load_data_def read_raises_def split: sum.split dask_frame.split)

lemma load_data_status: "fst (load_data rp p w) = SysExit n \<Longrightarrow> n = 1"
  by (auto simp add: load_data_def split: sum.splits dask_frame.splits if_splits)

lemma load_data_no_raise: "fst (load_data rp p w) \<noteq> Exc e"
  by (auto simp add: load_data_def split: sum.splits dask_frame.splits if_splits)

lemma main_ufs_missing:
  "\<not> path_exists w (ufs_file a) \<Longrightarrow>
   main_ufs a out rp w = (Ok (), w\<lparr>printed := printed w @ [FileNotFoundWarning ''UFS'' (ufs_file a)]\<rparr>)"
  by (simp add: main_ufs_def say_def)

lemma main_block_missing:
  "\<not> path_exists w (block_file a) \<Longrightarrow>
   main_block a out rp w = (Ok (), w\<lparr>printed := printed w @ [FileNotFoundWarning ''Block'' (block_file a)]\<rparr>)"
  by (simp add: main_block_def say_def)

lemma main_without_ufs:
  assumes "makedirs (path_join (output_dir a) ts) w = (Ok (), w1)"
    and "\<not> path_exists w1 (ufs_file a)"
  shows "main a ts rp w =
     run_all [main_block a (path_join (output_dir a) ts) rp,
              say (AllChartsSaved (path_join (output_dir a) ts))]
       (w1\<lparr>printed := printed w1 @ [FileNotFoundWarning ''UFS'' (ufs_file a)]\<rparr>)"
  using assms by (simp add: main_def main_ufs_missing)

lemma main_without_block:
  assumes "makedirs (path_join (output_dir a) ts) w = (Ok (), w1)"
    and "main_ufs a (path_join (output_dir a) ts) rp w1 = (Ok (), w2)"
    and "\<not> path_exists w2 (block_file a)"
  shows "main a ts rp w =
     (Ok (), w2\<lparr>printed := printed w2 @ [FileNotFoundWarning ''Block'' (block_file a),
                                        AllChartsSaved (path_join (output_dir a) ts)]\<rparr>)"
  using assms by (simp add: main_def main_block_missing say_def)

subsection \<open>Only loading leaves the process\<close>

lemma no_exit_draw: "no_exit (draw ax t)"
  by (cases ax) (simp_all add: no_exit_def)

lemma no_exit_basic:
  "no_exit (say l)" "no_exit (lift r)" "no_exit (enter f t)" "no_exit skip"
  "no_exit (makedirs p)" "no_exit (savefig p)"
  by (auto simp: no_exit_def say_def lift_def enter_def skip_def makedirs_def savefig_def
      split: sum.splits)

lemma run_all_Cons_fst:
  "fst (run_all (m # ms) w) =
     (case fst (m w) of Ok u \<Rightarrow> fst (run_all ms (snd (m w))) | Exc e \<Rightarrow> Exc e
      | SysExit n \<Rightarrow> SysExit n)"
  by (auto split: prod.splits res.splits)

lemma and_then_fst:
  "fst (and_then m f w) =
     (case fst (m w) of Ok x \<Rightarrow> fst (f x (snd (m w))) | Exc e \<Rightarrow> Exc e
      | SysExit n \<Rightarrow> SysExit n)"
  by (auto simp: and_then_def split: prod.splits res.splits)

lemma no_exit_run_all: "(\<And>m. m \<in> set ms \<Longrightarrow> no_exit m) \<Longrightarrow> no_exit (run_all ms)"
proof (induction ms)
  case Nil
  then show ?case by (simp add: no_exit_def)
next
  case (Cons m ms)
  then have m: "no_exit m" and r: "no_exit (run_all ms)" by simp_all
  then show ?case
    unfolding no_exit_def by (simp only: run_all_Cons_fst) (auto split: res.splits)
qed

lemma no_exit_and_then: "no_exit m \<Longrightarrow> (\<And>x. no_exit (f x)) \<Longrightarrow> no_exit (and_then m f)"
  unfolding no_exit_def by (simp only: and_then_fst) (auto split: res.splits)

lemma no_exit_if: "no_exit a \<Longrightarrow> no_exit b \<Longrightarrow> no_exit (if c then a else b)"
  by simp

lemma no_exit_helpers:
  "no_exit (plot_time_series df x y t yl ax)"
  "no_exit (plot_histogram df c t xl ax)"
  "no_exit (plot_pie df c t ax)"
  "no_exit (plot_opcode_distribution df ax)"
  "no_exit (plot_io_type_distribution df ax)"
  "no_exit (plot_by_operation_type df x y cc t p)"
  "no_exit (plot_heatmap df p tc)"
  "no_exit (latency_tables df)"
  unfolding plot_time_series_def plot_histogram_def plot_pie_def plot_opcode_distribution_def
    plot_io_type_distribution_def plot_by_operation_type_def plot_heatmap_def latency_tables_def
  by (auto intro!: no_exit_run_all no_exit_and_then no_exit_if no_exit_basic no_exit_draw)

lemma no_exit_visualize:
  "no_exit (visualize_issue_send_based df d u)"
  "no_exit (visualize_ufs_data_combined df p)"
  "no_exit (visualize_block_data_combined df p)"
  "no_exit (visualize_ufs_data df d)"
  "no_exit (visualize_block_data df d)"
  unfolding visualize_issue_send_based_def visualize_ufs_data_combined_def
    visualize_block_data_combined_def visualize_ufs_data_def visualize_block_data_def Let_def
  by (auto intro!: no_exit_run_all no_exit_and_then no_exit_if no_exit_basic no_exit_helpers)

lemma no_exit_sample_rows: "no_exit (sample_rows a fam df)"
  unfolding sample_rows_def no_exit_def
  by (simp add: and_then_fst say_def)

lemma main_ufs_exit:
  assumes "fst (main_ufs a out rp w) = SysExit n"
  shows "n = 1 \<and> path_exists w (ufs_file a) \<and> read_raises rp (ufs_file a)"
proof -
  have ex: "path_exists w (ufs_file a)"
  proof (rule ccontr)
    assume "\<not> path_exists w (ufs_file a)"
    then have "fst (main_ufs a out rp w) = Ok ()" by (simp add: main_ufs_missing)
    with assms show False by simp
  qed
  let ?k = "\<lambda>loaded. and_then (sample_rows a ''UFS'' loaded)
             (\<lambda>ufs_df.
                if issue_send a then
                  visualize_issue_send_based ufs_df (path_join out ''ufs_issue_send'') True
                else if combined a then
                  visualize_ufs_data_combined ufs_df (path_join out ''ufs_combined.png'')
                else visualize_ufs_data ufs_df (path_join out ''ufs''))"
  have k: "no_exit (?k df)" for df
    by (intro no_exit_and_then no_exit_sample_rows no_exit_if no_exit_visualize)
  from ex assms have "fst (and_then (load_data rp (ufs_file a)) ?k w) = SysExit n"
    by (simp add: main_ufs_def)
  then have l: "fst (load_data rp (ufs_file a) w) = SysExit n"
    using k by (auto simp: and_then_fst no_exit_def split: res.splits)
  then have "n = 1" by (rule load_data_status)
  moreover from l ex have "read_raises rp (ufs_file a)"
    using load_data_exit [of rp "ufs_file a" w] by auto
  ultimately show ?thesis using ex by simp
qed

lemma main_block_exit:
  assumes "fst (main_block a out rp w) = SysExit n"
  shows "n = 1 \<and> path_exists w (block_file a) \<and> read_raises rp (block_file a)"
proof -
  have ex: "path_exists w (block_file a)"
  proof (rule ccontr)
    assume "\<not> path_exists w (block_file a)"
    then have "fst (main_block a out rp w) = Ok ()" by (simp add: main_block_missing)
    with assms show False by simp
  qed
  let ?k = "\<lambda>loaded. and_then (sample_rows a ''Block'' loaded)
             (\<lambda>block_df.
                if issue_send a then
                  visualize_issue_send_based block_df (path_join out ''block_issue_send'')
                    False
                else if combined a then
                  visualize_block_data_combined block_df
                    (path_join out ''block_combined.png'')
                else visualize_block_data block_df (path_join out ''block''))"
  have k: "no_exit (?k df)" for df
    by (intro no_exit_and_then no_exit_sample_rows no_exit_if no_exit_visualize)
  from ex assms have "fst (and_then (load_data rp (block_file a)) ?k w) = SysExit n"
    by (simp add: main_block_def)
  then have l: "fst (load_data rp (block_file a) w) = SysExit n"
    using k by (auto simp: and_then_fst no_exit_def split: res.splits)
  then have "n = 1" by (rule load_data_status)
  moreover from l ex have "read_raises rp (block_file a)"
    using load_data_exit [of rp "block_file a" w] by auto
  ultimately show ?thesis using ex by simp
qed

lemma main_exit:
  assumes "fst (main a ts rp w) = SysExit n"
  shows "n = 1 \<and> (read_raises rp (ufs_file a) \<or> read_raises rp (block_file a))"
proof -
  let ?out = "path_join (output_dir a) ts"
  from assms have "fst (run_all [makedirs ?out, main_ufs a ?out rp, main_block a ?out rp,
      say (AllChartsSaved ?out)] w) = SysExit n" by (simp add: main_def)
  then consider
      (u) w1 where "fst (main_ufs a ?out rp w1) = SysExit n"
    | (b) w2 where "fst (main_block a ?out rp w2) = SysExit n"
    by (simp only: run_all_Cons_fst)
       (auto simp: makedirs_def say_def split: res.splits if_splits)
  then show ?thesis
  proof cases
    case u
    then show ?thesis using main_ufs_exit by blast
  next
    case b
    then show ?thesis using main_block_exit by blast
  qed
qed

subsection \<open>The two halves of \<open>main\<close>, one after the other\<close>

lemma load_data_reads:
  "path_exists w p \<Longrightarrow> rp p = Inr (DaskFrame k (Inr df)) \<Longrightarrow>
   load_data rp p w
     = (Ok df, w\<lparr>printed := printed w @ [LoadingFile p, LoadedPartitions k, ConvertedToPandas,
                                         DataShape (nrows df) (length (columns df))]\<rparr>)"
  by (simp add: load_data_def)

lemma load_data_fails:
  "path_exists w p \<Longrightarrow> read_raises rp p \<Longrightarrow> fst (load_data rp p w) = SysExit 1"
  by (auto simp add: load_data_def read_raises_def split: sum.splits dask_frame.splits)

lemma main_ufs_loaded:
  "path_exists w (ufs_file a) \<Longrightarrow> rp (ufs_file a) = Inr (DaskFrame k (Inr df)) \<Longrightarrow>
   main_ufs a out rp w
     = and_then (sample_rows a ''UFS'' df)
         (\<lambda>ufs_df.
            if issue_send a then
              visualize_issue_send_based ufs_df (path_join out ''ufs_issue_send'') True
            else if combined a then
              visualize_ufs_data_combined ufs_df (path_join out ''ufs_combined.png'')
            else visualize_ufs_data ufs_df (path_join out ''ufs''))
         (w\<lparr>printed := printed w @ [LoadingFile (ufs_file a), LoadedPartitions k,
                                    ConvertedToPandas,
                                    DataShape (nrows df) (length (columns df))]\<rparr>)"
  by (simp add: main_ufs_def load_data_reads and_then_def)

lemma main_block_loaded:
  "path_exists w (block_file a) \<Longrightarrow> rp (block_file a) = Inr (DaskFrame k (Inr df)) \<Longrightarrow>
   main_block a out rp w
     = and_then (sample_rows a ''Block'' df)
         (\<lambda>block_df.
            if issue_send a then
              visualize_issue_send_based block_df (path_join out ''block_issue_send'') False
            else if combined a then
              visualize_block_data_combined block_df (path_join out ''block_combined.png'')
            else visualize_block_data block_df (path_join out ''block''))
         (w\<lparr>printed := printed w @ [LoadingFile (block_file a), LoadedPartitions k,
                                    ConvertedToPandas,
                                    DataShape (nrows df) (length (columns df))]\<rparr>)"
  by (simp add: main_block_def load_data_reads and_then_def)

lemma main_ufs_unreadable:
  "path_exists w (ufs_file a) \<Longrightarrow> read_raises rp (ufs_file a) \<Longrightarrow>
   fst (main_ufs a out rp w) = SysExit 1"
  by (simp add: main_ufs_def and_then_fst load_data_fails)

lemma main_block_unreadable:
  "path_exists w (block_file a) \<Longrightarrow> read_raises rp (block_file a) \<Longrightarrow>
   fst (main_block a out rp w) = SysExit 1"
  by (simp add: main_block_def and_then_fst load_data_fails)

lemma main_stops_at_makedirs:
  "makedirs (path_join (output_dir a) ts) w = (r, w1) \<Longrightarrow> r \<noteq> Ok () \<Longrightarrow>
   main a ts rp w = (r, w1)"
  by (cases r) (simp_all add: main_def)

lemma main_stops_after_ufs:
  "makedirs (path_join (output_dir a) ts) w = (Ok (), w1) \<Longrightarrow>
   main_ufs a (path_join (output_dir a) ts) rp w1 = (r, w2) \<Longrightarrow> r \<noteq> Ok () \<Longrightarrow>
   main a ts rp w = (r, w2)"
  by (cases r) (simp_all add: main_def)

lemma main_stops_after_block:
  "makedirs (path_join (output_dir a) ts) w = (Ok (), w1) \<Longrightarrow>
   main_ufs a (path_join (output_dir a) ts) rp w1 = (Ok (), w2) \<Longrightarrow>
   main_block a (path_join (output_dir a) ts) rp w2 = (r, w3) \<Longrightarrow> r \<noteq> Ok () \<Longrightarrow>
   main a ts rp w = (r, w3)"
  by (cases r) (simp_all add: main_def)

lemma main_returns:
  "makedirs (path_join (output_dir a) ts) w = (Ok (), w1) \<Longrightarrow>
   main_ufs a (path_join (output_dir a) ts) rp w1 = (Ok (), w2) \<Longrightarrow>
   main_block a (path_join (output_dir a) ts) rp w2 = (Ok (), w3) \<Longrightarrow>
   main a ts rp w
     = (Ok (), w3\<lparr>printed := printed w3 @ [AllChartsSaved (path_join (output_dir a) ts)]\<rparr>)"
  by (simp add: main_def say_def)

text \<open>
  The families are not handled independently of each other. With both files present,
  the Block file readable and the UFS file corrupt, \<open>load_data\<close> leaves the process in the
  UFS half and \<open>main\<close> never loads the Block file.
\<close>

theorem families_not_independent_counterexample:
  "path_exists sample_world_both (block_file sample_args_issue_send)
   \<and> \<not> read_raises block_only_reader (block_file sample_args_issue_send)
   \<and> main sample_args_issue_send ''20250422_101500'' block_only_reader sample_world_both
       = (SysExit 1,
          sample_world_both\<lparr>fs_dirs := [''./plots/20250422_101500''],
            printed := [LoadingFile ''trace_ufs.parquet'', ReadFailed ''corrupt file'']\<rparr>)
   \<and> LoadingFile ''trace_block.parquet''
       \<notin> set (printed (snd (main sample_args_issue_send ''20250422_101500'' block_only_reader
                               sample_world_both)))"
proof -
  have m: "main sample_args_issue_send ''20250422_101500'' block_only_reader sample_world_both
       = (SysExit 1,
          sample_world_both\<lparr>fs_dirs := [''./plots/20250422_101500''],
            printed := [LoadingFile ''trace_ufs.parquet'', ReadFailed ''corrupt file'']\<rparr>)"
    by (simp add: main_def makedirs_def path_join_def suffix_def sample_args_issue_send_def
        sample_world_both_def main_ufs_def ufs_file_def path_exists_def and_then_def
        load_data_def block_only_reader_def)
  have e: "path_exists sample_world_both (block_file sample_args_issue_send)"
    by (simp add: path_exists_def sample_world_both_def block_file_def
        sample_args_issue_send_def)
  have r: "\<not> read_raises block_only_reader (block_file sample_args_issue_send)"
    by (simp add: read_raises_def block_only_reader_def block_file_def
        sample_args_issue_send_def)
  from m e r show ?thesis by simp
qed

text \<open>
  Claim C10, as the code has it. \<open>main\<close> derives the two file names by appending \<open>_ufs.parquet\<close>
  and \<open>_block.parquet\<close> to the prefix and handles the UFS family, then the Block family,
  the second only if the first returned. A family whose file is missing gives one
  warning and nothing else, so without the UFS file the Block family is still handled. A
  family whose file exists and can be read is loaded, sampled and drawn by the function
  of the chosen mode; a family whose file exists and cannot be read ends the process
  with status 1. \<open>main\<close> ends where its first half that does not return ends, and prints
  its last line when both returned. \<open>load_data\<close> raises nothing; it leaves the process
  exactly when the path does not exist or reading it raises, and then with status 1.
  \<open>main\<close> leaves the process only with status 1 and only when reading one of the two
  files raises.
\<close>

theorem main_handles_families_in_sequence:
  "ufs_file a = parquet_file a @ ''_ufs.parquet''
   \<and> block_file a = parquet_file a @ ''_block.parquet''
   \<and> (\<not> path_exists w (ufs_file a) \<longrightarrow>
        main_ufs a out rp w
          = (Ok (), w\<lparr>printed := printed w @ [FileNotFoundWarning ''UFS'' (ufs_file a)]\<rparr>))
   \<and> (\<not> path_exists w (block_file a) \<longrightarrow>
        main_block a out rp w
          = (Ok (), w\<lparr>printed := printed w @ [FileNotFoundWarning ''Block'' (block_file a)]\<rparr>))
   \<and> (path_exists w (ufs_file a) \<and> rp (ufs_file a) = Inr (DaskFrame k (Inr df)) \<longrightarrow>
        main_ufs a out rp w
          = and_then (sample_rows a ''UFS'' df)
              (\<lambda>ufs_df.
                 if issue_send a then
                   visualize_issue_send_based ufs_df (path_join out ''ufs_issue_send'') True
                 else if combined a then
                   visualize_ufs_data_combined ufs_df (path_join out ''ufs_combined.png'')
                 else visualize_ufs_data ufs_df (path_join out ''ufs''))
              (w\<lparr>printed := printed w @ [LoadingFile (ufs_file a), LoadedPartitions k,
                                         ConvertedToPandas,
                                         DataShape (nrows df) (length (columns df))]\<rparr>))
   \<and> (path_exists w (block_file a) \<and> rp (block_file a) = Inr (DaskFrame k (Inr df)) \<longrightarrow>
        main_block a out rp w
          = and_then (sample_rows a ''Block'' df)
              (\<lambda>block_df.
                 if issue_send a then
                   visualize_issue_send_based block_df (path_join out ''block_issue_send'') False
                 else if combined a then
                   visualize_block_data_combined block_df (path_join out ''block_combined.png'')
                 else visualize_block_data block_df (path_join out ''block''))
              (w\<lparr>printed := printed w @ [LoadingFile (block_file a), LoadedPartitions k,
                                         ConvertedToPandas,
                                         DataShape (nrows df) (length (columns df))]\<rparr>))
   \<and> (path_exists w (ufs_file a) \<and> read_raises rp (ufs_file a) \<longrightarrow>
        fst (main_ufs a out rp w) = SysExit 1)
   \<and> (path_exists w (block_file a) \<and> read_raises rp (block_file a) \<longrightarrow>
        fst (main_block a out rp w) = SysExit 1)
   \<and> (makedirs (path_join (output_dir a) ts) w = (r, w1) \<and> r \<noteq> Ok () \<longrightarrow>
        main a ts rp w = (r, w1))
   \<and> (makedirs (path_join (output_dir a) ts) w = (Ok (), w1)
        \<and> main_ufs a (path_join (output_dir a) ts) rp w1 = (r, w2) \<and> r \<noteq> Ok () \<longrightarrow>
        main a ts rp w = (r, w2))
   \<and> (makedirs (path_join (output_dir a) ts) w = (Ok (), w1)
        \<and> main_ufs a (path_join (output_dir a) ts) rp w1 = (Ok (), w2)
        \<and> main_block a (path_join (output_dir a) ts) rp w2 = (r, w3) \<and> r \<noteq> Ok () \<longrightarrow>
        main a ts rp w = (r, w3))
   \<and> (makedirs (path_join (output_dir a) ts) w = (Ok (), w1)
        \<and> main_ufs a (path_join (output_dir a) ts) rp w1 = (Ok (), w2)
        \<and> main_block a (path_join (output_dir a) ts) rp w2 = (Ok (), w3) \<longrightarrow>
        main a ts rp w
          = (Ok (), w3\<lparr>printed := printed w3
                @ [AllChartsSaved (path_join (output_dir a) ts)]\<rparr>))
   \<and> (path_exists w p \<and> rp p = Inr (DaskFrame k (Inr df)) \<longrightarrow>
        load_data rp p w
          = (Ok df, w\<lparr>printed := printed w @ [LoadingFile p, LoadedPartitions k,
                          ConvertedToPandas, DataShape (nrows df) (length (columns df))]\<rparr>))
   \<and> fst (load_data rp p w) \<noteq> Exc e
   \<and> (fst (load_data rp p w) = SysExit n \<longrightarrow> n = 1)
   \<and> ((\<exists>j. fst (load_data rp p w) = SysExit j) = (\<not> path_exists w p \<or> read_raises rp p))
   \<and> (fst (main a ts rp w) = SysExit n \<longrightarrow>
        n = 1 \<and> (read_raises rp (ufs_file a) \<or> read_raises rp (block_file a)))"
proof -
  have names: "ufs_file a = parquet_file a @ ''_ufs.parquet''
      \<and> block_file a = parquet_file a @ ''_block.parquet''"
    by (simp add: ufs_file_def block_file_def)
  have status: "fst (load_data rp p w) = SysExit n \<longrightarrow> n = 1"
    using load_data_status by blast
  have mexit: "fst (main a ts rp w) = SysExit n \<longrightarrow>
        n = 1 \<and> (read_raises rp (ufs_file a) \<or> read_raises rp (block_file a))"
    using main_exit by blast
  have lexit: "(\<exists>j. fst (load_data rp p w) = SysExit j) = (\<not> path_exists w p \<or> read_raises rp p)"
    by (rule load_data_exit)
  have noraise: "fst (load_data rp p w) \<noteq> Exc e"
    by (rule load_data_no_raise)
  show ?thesis
    apply (intro conjI impI)
    subgoal using names by simp
    subgoal using names by simp
    subgoal by (rule main_ufs_missing)
    subgoal by (rule main_block_missing)
    subgoal by (rule main_ufs_loaded) simp_all
    subgoal by (rule main_block_loaded) simp_all
    subgoal by (rule main_ufs_unreadable) simp_all
    subgoal by (rule main_block_unreadable) simp_all
    subgoal by (rule main_stops_at_makedirs) simp_all
    subgoal by (erule conjE)+ (rule main_stops_after_ufs)
    subgoal by (erule conjE)+ (rule main_stops_after_block)
    subgoal by (erule conjE)+ (rule main_returns)
    subgoal by (rule load_data_reads) simp_all
    subgoal by (rule noraise)
    subgoal using status by simp
    subgoal by (rule lexit)
    subgoal using mexit by simp
    subgoal using mexit by simp
    done
qed

theorem main_handles_families_in_sequence_witness:
  "\<not> path_exists (sample_world_block\<lparr>fs_dirs := [''./plots/20250422_101500'']\<rparr>)
        (ufs_file sample_args_issue_send)
   \<and> path_exists sample_world_block (block_file sample_args_issue_send)
   \<and> block_only_reader (block_file sample_args_issue_send)
       = Inr (DaskFrame 1 (Inr sample_block_table))
   \<and> main sample_args_issue_send ''20250422_101500'' block_only_reader sample_world_block
       = (Ok (),
          \<lparr>fs_files =
             [''./plots/20250422_101500/block_issue_send/block_qd_by_io_type.png'',
              ''./plots/20250422_101500/block_issue_send/block_ctoc_by_io_type.png'',
              ''./plots/20250422_101500/block_issue_send/block_ctod_by_io_type.png'',
              ''./plots/20250422_101500/block_issue_send/block_dtoc_by_io_type.png'',
              ''trace_block.parquet''],
           fs_dirs = [''./plots/20250422_101500/block_issue_send'', ''./plots/20250422_101500''],
           entered =
             [(''plot_by_operation_type'', ''Block I/O Dispatch to Complete Latency by io_type''),
              (''plot_by_operation_type'', ''Block I/O Complete to Dispatch Latency by io_type''),
              (''plot_by_operation_type'', ''Block I/O Complete to Complete Latency by io_type''),
              (''plot_by_operation_type'', ''Block I/O Queue Depth by io_type'')],
           drawn = [],
           printed =
             [FileNotFoundWarning ''UFS'' ''trace_ufs.parquet'',
              LoadingFile ''trace_block.parquet'', LoadedPartitions 1, ConvertedToPandas,
              DataShape 2 9,
              ChartSaved ''./plots/20250422_101500/block_issue_send/block_dtoc_by_io_type.png'',
              ChartSaved ''./plots/20250422_101500/block_issue_send/block_ctod_by_io_type.png'',
              ChartSaved ''./plots/20250422_101500/block_issue_send/block_ctoc_by_io_type.png'',
              ChartSaved ''./plots/20250422_101500/block_issue_send/block_qd_by_io_type.png'',
              IssueSendCompleted ''Block I/O'' ''io_type'',
              AllChartsSaved ''./plots/20250422_101500'']\<rparr>)
   \<and> path_exists sample_world_both (ufs_file sample_args_issue_send)
   \<and> read_raises block_only_reader (ufs_file sample_args_issue_send)
   \<and> fst (main_ufs sample_args_issue_send ''./plots/20250422_101500'' block_only_reader
             sample_world_both) = SysExit 1"
proof -
  let ?A = sample_args_issue_send
  let ?out = "path_join (output_dir ?A) ''20250422_101500''"
  let ?W1 = "sample_world_block\<lparr>fs_dirs := [''./plots/20250422_101500'']\<rparr>"
  let ?W2 = "?W1\<lparr>printed := printed ?W1 @ [FileNotFoundWarning ''UFS'' (ufs_file ?A)]\<rparr>"
  let ?W3 = "\<lparr>fs_files =
             [''./plots/20250422_101500/block_issue_send/block_qd_by_io_type.png'',
              ''./plots/20250422_101500/block_issue_send/block_ctoc_by_io_type.png'',
              ''./plots/20250422_101500/block_issue_send/block_ctod_by_io_type.png'',
              ''./plots/20250422_101500/block_issue_send/block_dtoc_by_io_type.png'',
              ''trace_block.parquet''],
           fs_dirs = [''./plots/20250422_101500/block_issue_send'', ''./plots/20250422_101500''],
           entered =
             [(''plot_by_operation_type'', ''Block I/O Dispatch to Complete Latency by io_type''),
              (''plot_by_operation_type'', ''Block I/O Complete to Dispatch Latency by io_type''),
              (''plot_by_operation_type'', ''Block I/O Complete to Complete Latency by io_type''),
              (''plot_by_operation_type'', ''Block I/O Queue Depth by io_type'')],
           drawn = [],
           printed =
             [FileNotFoundWarning ''UFS'' ''trace_ufs.parquet'',
              LoadingFile ''trace_block.parquet'', LoadedPartitions 1, ConvertedToPandas,
              DataShape 2 9,
              ChartSaved ''./plots/20250422_101500/block_issue_send/block_dtoc_by_io_type.png'',
              ChartSaved ''./plots/20250422_101500/block_issue_send/block_ctod_by_io_type.png'',
              ChartSaved ''./plots/20250422_101500/block_issue_send/block_ctoc_by_io_type.png'',
              ChartSaved ''./plots/20250422_101500/block_issue_send/block_qd_by_io_type.png'',
              IssueSendCompleted ''Block I/O'' ''io_type'']\<rparr>"
  have out: "?out = ''./plots/20250422_101500''"
    by (simp add: path_join_def suffix_def sample_args_issue_send_def)
  have mk: "makedirs ?out sample_world_block = (Ok (), ?W1)"
    by (simp add: out makedirs_def sample_world_block_def)
  have nu: "\<not> path_exists ?W1 (ufs_file ?A)"
    by (simp add: path_exists_def sample_world_block_def ufs_file_def
        sample_args_issue_send_def)
  have eb0: "path_exists sample_world_block (block_file ?A)"
    by (simp add: path_exists_def sample_world_block_def block_file_def
        sample_args_issue_send_def)
  have eb: "path_exists ?W2 (block_file ?A)"
    by (simp add: path_exists_def sample_world_block_def block_file_def
        sample_args_issue_send_def)
  have rb: "block_only_reader (block_file ?A) = Inr (DaskFrame 1 (Inr sample_block_table))"
    by (simp add: block_only_reader_def block_file_def sample_args_issue_send_def)
  have eu: "path_exists sample_world_both (ufs_file ?A)"
    by (simp add: path_exists_def sample_world_both_def ufs_file_def
        sample_args_issue_send_def)
  have ru: "read_raises block_only_reader (ufs_file ?A)"
    by (simp add: read_raises_def block_only_reader_def ufs_file_def
        sample_args_issue_send_def)
  note t1 = main_handles_families_in_sequence
    [where a = ?A and w = ?W1 and out = ?out and rp = block_only_reader]
  note t2 = main_handles_families_in_sequence
    [where a = ?A and w = ?W2 and out = ?out and rp = block_only_reader and k = 1
       and df = sample_block_table]
  note t3 = main_handles_families_in_sequence
    [where a = ?A and w = sample_world_block and ts = "''20250422_101500''"
       and rp = block_only_reader and ?w1.0 = ?W1 and ?w2.0 = ?W2 and ?w3.0 = ?W3]
  note t4 = main_handles_families_in_sequence
    [where a = ?A and w = sample_world_both and out = "''./plots/20250422_101500''"
       and rp = block_only_reader]
  from t1 nu have u: "main_ufs ?A ?out block_only_reader ?W1 = (Ok (), ?W2)" by blast
  from t2 eb rb have "main_block ?A ?out block_only_reader ?W2
      = and_then (sample_rows ?A ''Block'' sample_block_table)
          (\<lambda>block_df.
             if issue_send ?A then
               visualize_issue_send_based block_df (path_join ?out ''block_issue_send'') False
             else if combined ?A then
               visualize_block_data_combined block_df (path_join ?out ''block_combined.png'')
             else visualize_block_data block_df (path_join ?out ''block''))
          (?W2\<lparr>printed := printed ?W2 @ [LoadingFile (block_file ?A), LoadedPartitions 1,
                     ConvertedToPandas,
                     DataShape (nrows sample_block_table)
                       (length (columns sample_block_table))]\<rparr>)" by blast
  also have "\<dots> = (Ok (), ?W3)"
    by (simp add: out Let_def and_then_def sample_rows_def sample_args_issue_send_def
        sample_block_table_def visualize_issue_send_based_def makedirs_def
        plot_by_operation_type_def enter_def lift_def column_def skip_def savefig_def say_def
        path_join_def suffix_def sample_world_block_def ufs_file_def block_file_def)
  finally have b: "main_block ?A ?out block_only_reader ?W2 = (Ok (), ?W3)" .
  from t3 mk u b have "main ?A ''20250422_101500'' block_only_reader sample_world_block
      = (Ok (), ?W3\<lparr>printed := printed ?W3 @ [AllChartsSaved ?out]\<rparr>)" by blast
  then have m: "main ?A ''20250422_101500'' block_only_reader sample_world_block
      = (Ok (), ?W3\<lparr>printed := printed ?W3 @ [AllChartsSaved ''./plots/20250422_101500'']\<rparr>)"
    by (simp only: out)
  from t4 eu ru have x: "fst (main_ufs ?A ''./plots/20250422_101500'' block_only_reader
      sample_world_both) = SysExit 1" by blast
  from nu eb0 rb m eu ru x show ?thesis by simp
qed

end
